theory Spec2Isabelle
  imports
    Main
    "HOL-Library.Multiset"
    "HOL-Library.List_Lexorder"
    "HOL-Library.Char_ord"
begin

section \<open>Go values used by the endpoint generator\<close>

text \<open>
  Go strings are byte sequences and \<open>string\<close> is \<open>char list\<close> with 8-bit characters;
  the comparison \<open><\<close> on Go strings is the bytewise lexicographic order, which is the
  order of \<open>HOL-Library.List_Lexorder\<close> over \<open>HOL-Library.Char_ord\<close>.

  A Go map is either nil or a finite table. Both read alike (a lookup in a nil map finds
  nothing, a range over it runs zero times), but \<open>Validate\<close> and \<open>GenerateEndpoints\<close>
  compare maps with nil, so the model keeps the difference: \<open>None\<close> is nil.
\<close>

type_synonym ('k, 'v) gomap = "('k \<rightharpoonup> 'v) option"

definition isNil :: "'a option \<Rightarrow> bool" where
  "isNil x = (case x of None \<Rightarrow> True | Some _ \<Rightarrow> False)"

text \<open>\<open>v, found := m[k]\<close>\<close>

definition mapIndex :: "('k, 'v) gomap \<Rightarrow> 'k \<Rightarrow> 'v option" where
  "mapIndex m k = (case m of None \<Rightarrow> None | Some t \<Rightarrow> t k)"

definition mapKeys :: "('k, 'v) gomap \<Rightarrow> 'k set" where
  "mapKeys m = (case m of None \<Rightarrow> {} | Some t \<Rightarrow> dom t)"

text \<open>
  \<open>for key, value := range m\<close> visits every entry of the map once, in an order the Go
  runtime chooses anew for each loop (the language leaves it unspecified and the runtime
  randomises it). The order is therefore an input of the model: \<open>ord\<close> lists the keys in
  the order this run of the loop visits them, and \<open>rangeOrder ord m\<close> says that \<open>ord\<close>
  is such an enumeration of \<open>m\<close>.
\<close>

definition rangeOrder :: "'k list \<Rightarrow> ('k, 'v) gomap \<Rightarrow> bool" where
  "rangeOrder ord m = (distinct ord \<and> set ord = mapKeys m)"

definition mapRange :: "'k list \<Rightarrow> ('k, 'v) gomap \<Rightarrow> ('k \<times> 'v) list" where
  "mapRange ord m = List.map_filter (\<lambda>k. map_option (Pair k) (mapIndex m k)) ord"

text \<open>\<open>strings.HasPrefix(s, prefix)\<close>: \<open>len(s) >= len(prefix) && s[:len(prefix)] == prefix\<close>.\<close>

definition HasPrefix :: "string \<Rightarrow> string \<Rightarrow> bool" where
  "HasPrefix s p = (length p \<le> length s \<and> take (length p) s = p)"

text \<open>
  \<open>strings.Replace(s, old, new, -1)\<close>: every non-overlapping occurrence of \<open>old\<close> in
  \<open>s\<close>, found from the left, is replaced by \<open>new\<close>. The generator calls it with the
  non-empty \<open>old = "*."\<close> only; for an empty \<open>old\<close> (where Go inserts \<open>new\<close> between the
  runes) the model returns \<open>s\<close>.
\<close>

fun Replace :: "string \<Rightarrow> string \<Rightarrow> string \<Rightarrow> string" where
  "Replace [] old new = []"
| "Replace (c # cs) old new =
     (if old \<noteq> [] \<and> HasPrefix (c # cs) old
      then new @ Replace (drop (length old) (c # cs)) old new
      else c # Replace cs old new)"

text \<open>
  \<open>strings.ToLower\<close> on ASCII text, where Go maps the bytes \<open>'A'..'Z'\<close> to \<open>'a'..'z'\<close>
  and keeps every other byte. DNS names and geo codes are ASCII; a byte outside ASCII is
  kept by the model.
\<close>

definition toLowerByte :: "char \<Rightarrow> char" where
  "toLowerByte c =
     (if CHR ''A'' \<le> c \<and> c \<le> CHR ''Z'' then char_of (of_char c + (32::nat)) else c)"

definition ToLower :: "string \<Rightarrow> string" where
  "ToLower s = map toLowerByte s"

text \<open>\<open>strconv.Itoa\<close>: the decimal text of an integer.\<close>

fun decimal :: "nat \<Rightarrow> string" where
  "decimal n =
     (if n < 10 then [char_of (48 + n)]
      else decimal (n div 10) @ [char_of (48 + n mod 10)])"

definition Itoa :: "int \<Rightarrow> string" where
  "Itoa i = (if i < 0 then CHR ''-'' # decimal (nat (- i)) else decimal (nat i))"

section \<open>Label selectors (k8s.io/apimachinery)\<close>

text \<open>
  \<open>metav1.LabelSelector\<close> with its two fields; each may be nil. The entries of the
  \<open>MatchLabels\<close> map are kept as a list of pairs with distinct keys: every use of them
  below is a conjunction over all entries, so their order does not show.
\<close>

record LabelSelectorRequirement =
  Key :: string
  Operator :: string
  Values :: "string list"

record LabelSelector =
  MatchLabels :: "(string \<times> string) list option"
  MatchExpressions :: "LabelSelectorRequirement list option"

definition lenOf :: "'a list option \<Rightarrow> nat" where
  "lenOf xs = (case xs of None \<Rightarrow> 0 | Some l \<Rightarrow> length l)"

definition elemsOf :: "'a list option \<Rightarrow> 'a list" where
  "elemsOf xs = (case xs of None \<Rightarrow> [] | Some l \<Rightarrow> l)"

datatype selectionOperator = OpIn | OpNotIn | OpExists | OpDoesNotExist | OpEquals

datatype Requirement =
  Requirement (reqKey: string) (reqOperator: selectionOperator) (reqValues: "string list")

text \<open>
  The syntax checks of \<open>k8s.io/apimachinery/pkg/util/validation\<close>, each as "the function
  reports no error":
  \<^item> \<open>IsDNS1123Subdomain\<close>: at most 253 bytes, matching
    \<open>[a-z0-9]([-a-z0-9]*[a-z0-9])?(\.[a-z0-9]([-a-z0-9]*[a-z0-9])?)*\<close>;
  \<^item> \<open>IsQualifiedName\<close>: an optional DNS-subdomain prefix and \<open>/\<close>, then a name of 1 to
    63 bytes matching \<open>([A-Za-z0-9][-A-Za-z0-9_.]*)?[A-Za-z0-9]\<close>;
  \<^item> \<open>IsValidLabelValue\<close>: empty, or at most 63 bytes matching the same name pattern.
\<close>

definition isLowerAlnum :: "char \<Rightarrow> bool" where
  "isLowerAlnum c = ((CHR ''a'' \<le> c \<and> c \<le> CHR ''z'') \<or> (CHR ''0'' \<le> c \<and> c \<le> CHR ''9''))"

definition isAlnum :: "char \<Rightarrow> bool" where
  "isAlnum c = (isLowerAlnum c \<or> (CHR ''A'' \<le> c \<and> c \<le> CHR ''Z''))"

definition isQnameExtChar :: "char \<Rightarrow> bool" where
  "isQnameExtChar c = (isAlnum c \<or> c = CHR ''-'' \<or> c = CHR ''_'' \<or> c = CHR ''.'')"

fun Split :: "string \<Rightarrow> char \<Rightarrow> string list" where
  "Split [] sep = [[]]"
| "Split (c # cs) sep =
     (if c = sep then [] # Split cs sep
      else (case Split cs sep of [] \<Rightarrow> [[c]] | p # ps \<Rightarrow> (c # p) # ps))"

definition matchesDNS1123Label :: "string \<Rightarrow> bool" where
  "matchesDNS1123Label l =
     (case l of [] \<Rightarrow> False
      | c # cs \<Rightarrow> isLowerAlnum c \<and> isLowerAlnum (last (c # cs)) \<and>
          list_all (\<lambda>x. isLowerAlnum x \<or> x = CHR ''-'') cs)"

definition IsDNS1123Subdomain :: "string \<Rightarrow> bool" where
  "IsDNS1123Subdomain v = (length v \<le> 253 \<and> list_all matchesDNS1123Label (Split v CHR ''.''))"

definition matchesQualifiedName :: "string \<Rightarrow> bool" where
  "matchesQualifiedName n =
     (case n of [] \<Rightarrow> False
      | c # cs \<Rightarrow> isAlnum c \<and> isAlnum (last (c # cs)) \<and> list_all isQnameExtChar cs)"

definition IsQualifiedName :: "string \<Rightarrow> bool" where
  "IsQualifiedName v =
     (case Split v CHR ''/'' of
        [name] \<Rightarrow> length name \<le> 63 \<and> matchesQualifiedName name
      | [prefix, name] \<Rightarrow>
          prefix \<noteq> [] \<and> IsDNS1123Subdomain prefix \<and> length name \<le> 63 \<and> matchesQualifiedName name
      | _ \<Rightarrow> False)"

definition IsValidLabelValue :: "string \<Rightarrow> bool" where
  "IsValidLabelValue v = (length v \<le> 63 \<and> (v = [] \<or> matchesQualifiedName v))"

text \<open>
  \<open>labels.NewRequirement(key, op, vals)\<close>: the key is a qualified name, the number of
  values fits the operator, every value is a label value; \<open>None\<close> is its error.
\<close>

definition NewRequirement :: "string \<Rightarrow> selectionOperator \<Rightarrow> string list \<Rightarrow> Requirement option" where
  "NewRequirement key op vals =
     (if IsQualifiedName key \<and>
         (case op of
            OpIn \<Rightarrow> vals \<noteq> []
          | OpNotIn \<Rightarrow> vals \<noteq> []
          | OpEquals \<Rightarrow> length vals = 1
          | OpExists \<Rightarrow> vals = []
          | OpDoesNotExist \<Rightarrow> vals = []) \<and>
         list_all IsValidLabelValue vals
      then Some (Requirement key op vals) else None)"

definition selectorOperator :: "string \<Rightarrow> selectionOperator option" where
  "selectorOperator s =
     (if s = ''In'' then Some OpIn
      else if s = ''NotIn'' then Some OpNotIn
      else if s = ''Exists'' then Some OpExists
      else if s = ''DoesNotExist'' then Some OpDoesNotExist
      else None)"

definition expressionRequirement :: "LabelSelectorRequirement \<Rightarrow> Requirement option" where
  "expressionRequirement expr =
     (case selectorOperator (Operator expr) of
        None \<Rightarrow> None
      | Some op \<Rightarrow> NewRequirement (Key expr) op (Values expr))"

text \<open>
  \<open>metav1.LabelSelectorAsSelector\<close>: a selector with no entry at all selects everything
  (the empty list of requirements); otherwise every match label becomes an equality
  requirement and every expression a requirement of its operator, and the first one that
  \<open>NewRequirement\<close> refuses, or whose operator is unknown, is the error (\<open>None\<close>).
\<close>

definition LabelSelectorAsSelector :: "LabelSelector \<Rightarrow> Requirement list option" where
  "LabelSelectorAsSelector ps =
     (if lenOf (MatchLabels ps) + lenOf (MatchExpressions ps) = 0 then Some []
      else
        (case those (map (\<lambda>(k, v). NewRequirement k OpEquals [v]) (elemsOf (MatchLabels ps))) of
           None \<Rightarrow> None
         | Some labelReqs \<Rightarrow>
             (case those (map expressionRequirement (elemsOf (MatchExpressions ps))) of
                None \<Rightarrow> None
              | Some exprReqs \<Rightarrow> Some (labelReqs @ exprReqs))))"

text \<open>\<open>Requirement.Matches\<close> and \<open>Selector.Matches\<close> on the label set of an object.\<close>

definition requirementMatches :: "Requirement \<Rightarrow> (string, string) gomap \<Rightarrow> bool" where
  "requirementMatches r ls =
     (case reqOperator r of
        OpIn \<Rightarrow> (case mapIndex ls (reqKey r) of None \<Rightarrow> False | Some v \<Rightarrow> v \<in> set (reqValues r))
      | OpEquals \<Rightarrow> (case mapIndex ls (reqKey r) of None \<Rightarrow> False | Some v \<Rightarrow> v \<in> set (reqValues r))
      | OpNotIn \<Rightarrow> (case mapIndex ls (reqKey r) of None \<Rightarrow> True | Some v \<Rightarrow> v \<notin> set (reqValues r))
      | OpExists \<Rightarrow> \<not> isNil (mapIndex ls (reqKey r))
      | OpDoesNotExist \<Rightarrow> isNil (mapIndex ls (reqKey r)))"

definition Matches :: "Requirement list \<Rightarrow> (string, string) gomap \<Rightarrow> bool" where
  "Matches selector ls = list_all (\<lambda>r. requirementMatches r ls) selector"

section \<open>The data model of dnsrecord_endpoints.go\<close>

definition SimpleRoutingStrategy :: string where
  "SimpleRoutingStrategy = ''simple''"

definition LoadBalancedRoutingStrategy :: string where
  "LoadBalancedRoutingStrategy = ''loadbalanced''"

definition IPAddressType :: string where
  "IPAddressType = ''IPAddress''"

definition HostnameAddressType :: string where
  "HostnameAddressType = ''Hostname''"

definition DefaultTTL :: int where
  "DefaultTTL = 60"

definition DefaultCnameTTL :: int where
  "DefaultCnameTTL = 300"

definition ClusterIDLength :: nat where
  "ClusterIDLength = 6"

definition LabelLBAttributeGeoCode :: string where
  "LabelLBAttributeGeoCode = ''kuadrant.io/lb-attribute-geo-code''"

text \<open>
  Modelled from the spec: the constants \<open>DefaultGeo\<close>, \<open>WildcardGeo\<close>,
  \<open>ProviderSpecificWeight\<close>, \<open>ProviderSpecificGeoCode\<close>, \<open>ARecordType\<close> and
  \<open>CNAMERecordType\<close> are declared in a file of the package that is not among the
  sources. Their values are the ones the specification names (\<open>weight\<close>, \<open>geo-code\<close>,
  \<open>*\<close>, \<open>A\<close>, \<open>CNAME\<close>) and the ones the package's tests expect of a generation
  without geo label (\<open>default.klb.test.example.com\<close>, set identifier \<open>default\<close>).
\<close>

definition DefaultGeo :: string where
  "DefaultGeo = ''default''"

definition WildcardGeo :: string where
  "WildcardGeo = ''*''"

definition ProviderSpecificWeight :: string where
  "ProviderSpecificWeight = ''weight''"

definition ProviderSpecificGeoCode :: string where
  "ProviderSpecificGeoCode = ''geo-code''"

definition ARecordType :: string where
  "ARecordType = ''A''"

definition CNAMERecordType :: string where
  "CNAMERecordType = ''CNAME''"

record CustomWeight =
  Weight :: int
  Selector :: LabelSelector

text \<open>
  \<open>Routing\<close>. \<open>Strategy\<close> is a Go string type and holds any string. A nil
  \<open>CustomWeights\<close> slice and an empty one behave alike in every function below (the loop
  over it runs zero times), so both are the empty list. The weights are Go \<open>int\<close>s;
  the code compares them with zero and prints them, and never computes with them.
  The functions take a \<open>*Routing\<close>; the model is of calls with a pointer that is not nil.
\<close>

record Routing =
  Addresses :: "(string, string) gomap"
  Strategy :: string
  DefaultGeoCode :: string
  DefaultWeight :: int
  CustomWeights :: "CustomWeight list"
  ClusterID :: string

record NamespacedName =
  Namespace :: string
  Name :: string

text \<open>
  \<open>externaldns.Endpoint\<close>: the fields the generator sets. \<open>ProviderSpecific\<close> is the
  list of name and value pairs; nil and empty are both \<open>[]\<close>. The \<open>Labels\<close> field is
  never written by this code and is left out.
\<close>

record Endpoint =
  DNSName :: string
  Targets :: "string list"
  RecordType :: string
  SetIdentifier :: string
  RecordTTL :: int
  ProviderSpecific :: "(string \<times> string) list"

text \<open>\<open>Endpoint.SetProviderSpecificProperty\<close>: overwrite the property of that name, or append it.\<close>

fun setProperty :: "(string \<times> string) list \<Rightarrow> string \<Rightarrow> string \<Rightarrow> (string \<times> string) list" where
  "setProperty [] key val = [(key, val)]"
| "setProperty ((n, v) # ps) key val =
     (if n = key then (key, val) # ps else (n, v) # setProperty ps key val)"

definition SetProviderSpecificProperty :: "Endpoint \<Rightarrow> string \<Rightarrow> string \<Rightarrow> Endpoint" where
  "SetProviderSpecificProperty e key val =
     e\<lparr>ProviderSpecific := setProperty (ProviderSpecific e) key val\<rparr>"

datatype error =
    EmptyHostname
  | ObjectLabelsRequired
  | UnknownRoutingStrategy string
  | MustProvideAddresses
  | ClusterIDRequired
  | DefaultWeightRequired
  | DefaultGeoCodeRequired
  | CustomWeightZero
  | CustomWeightEmptySelector

text \<open>The text of each error, as \<open>fmt.Errorf\<close> builds it.\<close>

fun Error :: "error \<Rightarrow> string" where
  "Error EmptyHostname = ''listener hostname is empty''"
| "Error ObjectLabelsRequired = ''object labels required''"
| "Error (UnknownRoutingStrategy s) = ''unknown routing strategy : '' @ s"
| "Error MustProvideAddresses = ''must provide addresses''"
| "Error ClusterIDRequired = ''cluster ID is required''"
| "Error DefaultWeightRequired = ''default weight is required''"
| "Error DefaultGeoCodeRequired = ''default geocode is required''"
| "Error CustomWeightZero = ''custom weight cannot be zero''"
| "Error CustomWeightEmptySelector = ''custom weight must define non-empty selector''"

section \<open>The functions of dnsrecord_endpoints.go\<close>

definition createEndpoint :: "string \<Rightarrow> string list \<Rightarrow> string \<Rightarrow> string \<Rightarrow> int \<Rightarrow> Endpoint" where
  "createEndpoint dnsName targets recordType setIdentifier recordTTL =
     \<lparr>DNSName = dnsName, Targets = targets, RecordType = recordType,
      SetIdentifier = setIdentifier, RecordTTL = recordTTL, ProviderSpecific = []\<rparr>"

definition getSetID :: "Endpoint \<Rightarrow> string" where
  "getSetID endpoint = DNSName endpoint @ SetIdentifier endpoint"

definition isWildCardHost :: "string \<Rightarrow> bool" where
  "isWildCardHost host = HasPrefix host ''*''"

text \<open>
  \<open>hash.ToBase36HashLen\<close> belongs to a package of the repository that is not among the
  sources; every function that reaches it takes it as the parameter \<open>toBase36HashLen\<close>.
\<close>

definition getShortCode :: "(string \<Rightarrow> nat \<Rightarrow> string) \<Rightarrow> string \<Rightarrow> string" where
  "getShortCode toBase36HashLen name = toBase36HashLen name ClusterIDLength"

definition getGeoFromLabel :: "(string, string) gomap \<Rightarrow> string" where
  "getGeoFromLabel objectLabels =
     (case mapIndex objectLabels LabelLBAttributeGeoCode of
        Some geoCode \<Rightarrow> geoCode
      | None \<Rightarrow> DefaultGeo)"

definition targetsFromAddresses ::
  "string list \<Rightarrow> (string, string) gomap \<Rightarrow> string list \<times> string list" where
  "targetsFromAddresses ord addresses =
     foldl (\<lambda>(ipValues, hostValues) (key, val).
              if val = ''IPAddress'' then (ipValues @ [key], hostValues)
              else (ipValues, hostValues @ [key]))
       ([], []) (mapRange ord addresses)"

fun getWeightFrom :: "int \<Rightarrow> CustomWeight list \<Rightarrow> (string, string) gomap \<Rightarrow> int" where
  "getWeightFrom weight [] objectLabels = weight"
| "getWeightFrom weight (customWeight # rest) objectLabels =
     (case LabelSelectorAsSelector (Selector customWeight) of
        None \<Rightarrow> weight
      | Some selector \<Rightarrow>
          if Matches selector objectLabels then Weight customWeight
          else getWeightFrom weight rest objectLabels)"

definition getWeight :: "Routing \<Rightarrow> (string, string) gomap \<Rightarrow> int" where
  "getWeight r objectLabels = getWeightFrom (DefaultWeight r) (CustomWeights r) objectLabels"

fun validateCustomWeights :: "CustomWeight list \<Rightarrow> error option" where
  "validateCustomWeights [] = None"
| "validateCustomWeights (customWeight # rest) =
     (if Weight customWeight = 0 then Some CustomWeightZero
      else if isNil (MatchLabels (Selector customWeight)) \<and>
              lenOf (MatchLabels (Selector customWeight)) = 0 \<and>
              isNil (MatchExpressions (Selector customWeight))
      then Some CustomWeightEmptySelector
      else validateCustomWeights rest)"

definition Validate :: "Routing \<Rightarrow> error option" where
  "Validate r =
     (if Strategy r = SimpleRoutingStrategy then None
      else if Strategy r = '''' \<or> isNil (Addresses r) then Some MustProvideAddresses
      else if ClusterID r = '''' then Some ClusterIDRequired
      else if DefaultWeight r = 0 then Some DefaultWeightRequired
      else if DefaultGeoCode r = '''' then Some DefaultGeoCodeRequired
      else validateCustomWeights (CustomWeights r))"

definition getSimpleEndpoints :: "string list \<Rightarrow> (string, string) gomap \<Rightarrow> string \<Rightarrow> Endpoint list" where
  "getSimpleEndpoints ord addresses hostname =
     (let (ipValues, hostValues) = targetsFromAddresses ord addresses;
          endpoints =
            (if length ipValues > 0
             then [createEndpoint hostname ipValues ARecordType '''' DefaultTTL] else [])
      in if length hostValues > 0
         then endpoints @ [createEndpoint hostname hostValues CNAMERecordType '''' DefaultTTL]
         else endpoints)"

text \<open>The local names of \<open>getLoadBalancedEndpoints\<close>, each as a function of what it is computed from.\<close>

definition cnameHost :: "string \<Rightarrow> string" where
  "cnameHost hostname =
     (if isWildCardHost hostname then Replace hostname ''*.'' '''' else hostname)"

definition lbName :: "string \<Rightarrow> string" where
  "lbName hostname = ToLower (''klb.'' @ cnameHost hostname)"

definition geoLbName :: "(string, string) gomap \<Rightarrow> string \<Rightarrow> string" where
  "geoLbName objectLabels hostname =
     ToLower (getGeoFromLabel objectLabels @ ''.'' @ lbName hostname)"

definition clusterLbName ::
  "(string \<Rightarrow> nat \<Rightarrow> string) \<Rightarrow> NamespacedName \<Rightarrow> Routing \<Rightarrow> string \<Rightarrow> string" where
  "clusterLbName toBase36HashLen namespacedName routing hostname =
     ToLower (getShortCode toBase36HashLen (ClusterID routing) @ ''-'' @
              getShortCode toBase36HashLen (Name namespacedName @ ''-'' @ Namespace namespacedName) @
              ''.'' @ lbName hostname)"

text \<open>One record of the loop over \<open>hostValues\<close>: the geo-tier CNAME of a target.\<close>

definition weightedEndpoint :: "(string, string) gomap \<Rightarrow> Routing \<Rightarrow> string \<Rightarrow> string \<Rightarrow> Endpoint" where
  "weightedEndpoint objectLabels routing hostname hostValue =
     SetProviderSpecificProperty
       (createEndpoint (geoLbName objectLabels hostname) [hostValue] CNAMERecordType hostValue DefaultTTL)
       ProviderSpecificWeight (Itoa (getWeight routing objectLabels))"

definition getLoadBalancedEndpoints ::
  "(string \<Rightarrow> nat \<Rightarrow> string) \<Rightarrow> string list \<Rightarrow> NamespacedName \<Rightarrow> (string, string) gomap \<Rightarrow>
   Routing \<Rightarrow> string \<Rightarrow> Endpoint list" where
  "getLoadBalancedEndpoints toBase36HashLen ord namespacedName objectLabels routing hostname =
     (let geoCode = getGeoFromLabel objectLabels;
          (ipValues, hostValues0) = targetsFromAddresses ord (Addresses routing);
          clusterName = clusterLbName toBase36HashLen namespacedName routing hostname;
          endpoints1 =
            (if length ipValues > 0
             then [createEndpoint clusterName ipValues ARecordType '''' DefaultTTL] else []);
          hostValues = (if length ipValues > 0 then hostValues0 @ [clusterName] else hostValues0);
          endpoints2 = endpoints1 @ map (weightedEndpoint objectLabels routing hostname) hostValues
      in if length endpoints2 = 0 then endpoints2
         else
           (let endpoint =
                  createEndpoint (lbName hostname) [geoLbName objectLabels hostname]
                    CNAMERecordType geoCode DefaultCnameTTL;
                endpoints3 = endpoints2 @
                  [if geoCode \<noteq> DefaultGeo
                   then SetProviderSpecificProperty endpoint ProviderSpecificGeoCode geoCode
                   else endpoint];
                endpoints4 =
                  (if geoCode = DefaultGeoCode routing
                   then endpoints3 @
                     [SetProviderSpecificProperty
                        (createEndpoint (lbName hostname) [geoLbName objectLabels hostname]
                           CNAMERecordType ''default'' DefaultCnameTTL)
                        ProviderSpecificGeoCode WildcardGeo]
                   else endpoints3)
            in if length endpoints4 > 0
               then endpoints4 @
                 [createEndpoint hostname [lbName hostname] CNAMERecordType '''' DefaultCnameTTL]
               else endpoints4))"

text \<open>
  \<open>sort.Slice(endpoints, less)\<close> sorts the slice by Go's pattern-defeating quicksort, which
  (since Go 1.19) sorts a slice of at most twelve elements by \<open>insertionSort_func\<close>:
  \<^verbatim>\<open>for i := a + 1; i < b; i++ { for j := i; j > a && less(j, j-1); j-- { swap(j, j-1) } }\<close>
  \<open>sinkLeft\<close> is the inner loop: \<open>before\<close> holds the elements to the left of position
  \<open>i\<close>, the nearest first, and the element \<open>x\<close> moves left past every neighbour it is
  less than. \<open>insertionSort\<close> is the outer loop.
\<close>

fun sinkLeft :: "('a \<Rightarrow> 'a \<Rightarrow> bool) \<Rightarrow> 'a \<Rightarrow> 'a list \<Rightarrow> 'a list" where
  "sinkLeft lessFn x [] = [x]"
| "sinkLeft lessFn x (y # before) =
     (if lessFn x y then y # sinkLeft lessFn x before else x # y # before)"

definition insertionSort :: "('a \<Rightarrow> 'a \<Rightarrow> bool) \<Rightarrow> 'a list \<Rightarrow> 'a list" where
  "insertionSort lessFn xs = rev (foldl (\<lambda>before x. sinkLeft lessFn x before) [] xs)"

text \<open>
  The call of \<open>GenerateEndpoints\<close>, with \<open>less i j = getSetID(endpoints[i]) <
  getSetID(endpoints[j])\<close>. The model is the insertion sort for every length; it keeps
  records of equal key in the order they were appended. On slices of more than twelve
  elements Go's sort also returns the records in ascending key order, but the order among
  records of equal key is its own; a statement that depends on that order is made for
  results of at most twelve endpoints.
\<close>

definition sortSlice :: "Endpoint list \<Rightarrow> Endpoint list" where
  "sortSlice endpoints = insertionSort (\<lambda>a b. getSetID a < getSetID b) endpoints"

definition GenerateEndpoints ::
  "(string \<Rightarrow> nat \<Rightarrow> string) \<Rightarrow> string list \<Rightarrow> NamespacedName \<Rightarrow> (string, string) gomap \<Rightarrow>
   string \<Rightarrow> Routing \<Rightarrow> error + Endpoint list" where
  "GenerateEndpoints toBase36HashLen ord namespacedName objectLabels hostname routing =
     (if hostname = '''' then Inl EmptyHostname
      else
        (case Validate routing of
           Some err \<Rightarrow> Inl err
         | None \<Rightarrow>
             if Strategy routing = SimpleRoutingStrategy
             then Inr (sortSlice (getSimpleEndpoints ord (Addresses routing) hostname))
             else if Strategy routing = LoadBalancedRoutingStrategy
             then
               (if isNil objectLabels then Inl ObjectLabelsRequired
                else Inr (sortSlice
                  (getLoadBalancedEndpoints toBase36HashLen ord namespacedName objectLabels
                     routing hostname)))
             else Inl (UnknownRoutingStrategy (Strategy routing))))"

section \<open>Vocabulary of the statements\<close>

text \<open>
  The fields \<open>Validate\<close> requires of a routing that is not simple, and a custom weight
  with a weight and a selector that has at least one match label or match expression.
\<close>

definition requiredFieldsSet :: "Routing \<Rightarrow> bool" where
  "requiredFieldsSet r =
     (Strategy r \<noteq> SimpleRoutingStrategy \<and> Strategy r \<noteq> '''' \<and> \<not> isNil (Addresses r) \<and>
      ClusterID r \<noteq> '''' \<and> DefaultWeight r \<noteq> 0 \<and> DefaultGeoCode r \<noteq> '''')"

definition wellFormedWeight :: "CustomWeight \<Rightarrow> bool" where
  "wellFormedWeight cw =
     (Weight cw \<noteq> 0 \<and> 0 < lenOf (MatchLabels (Selector cw)) + lenOf (MatchExpressions (Selector cw)))"

text \<open>
  The records of the load-balanced chain, written out: the A record of the cluster, the
  weighted CNAME of one target at the geo name, the CNAME of the load-balancer name for
  the geo code, its duplicate for the default geo, and the CNAME of the hostname.
  \<open>hostTargets\<close> is the list the loop over \<open>hostValues\<close> runs through: the
  hostname-typed addresses, then the cluster name when there are IP addresses.
\<close>

definition hostTargets ::
  "(string \<Rightarrow> nat \<Rightarrow> string) \<Rightarrow> string list \<Rightarrow> NamespacedName \<Rightarrow> Routing \<Rightarrow> string \<Rightarrow> string list" where
  "hostTargets h ord nn r hostname =
     snd (targetsFromAddresses ord (Addresses r)) @
     (if fst (targetsFromAddresses ord (Addresses r)) = [] then []
      else [clusterLbName h nn r hostname])"

definition clusterEndpoints ::
  "(string \<Rightarrow> nat \<Rightarrow> string) \<Rightarrow> string list \<Rightarrow> NamespacedName \<Rightarrow> Routing \<Rightarrow> string \<Rightarrow> Endpoint list" where
  "clusterEndpoints h ord nn r hostname =
     (if fst (targetsFromAddresses ord (Addresses r)) = [] then []
      else [\<lparr>DNSName = clusterLbName h nn r hostname,
             Targets = fst (targetsFromAddresses ord (Addresses r)),
             RecordType = ''A'', SetIdentifier = '''', RecordTTL = 60, ProviderSpecific = []\<rparr>])"

definition weightedCname :: "(string, string) gomap \<Rightarrow> Routing \<Rightarrow> string \<Rightarrow> string \<Rightarrow> Endpoint" where
  "weightedCname objectLabels r hostname target =
     \<lparr>DNSName = geoLbName objectLabels hostname, Targets = [target], RecordType = ''CNAME'',
      SetIdentifier = target, RecordTTL = 60,
      ProviderSpecific = [(''weight'', Itoa (getWeight r objectLabels))]\<rparr>"

definition geoCname :: "(string, string) gomap \<Rightarrow> string \<Rightarrow> Endpoint" where
  "geoCname objectLabels hostname =
     \<lparr>DNSName = lbName hostname, Targets = [geoLbName objectLabels hostname],
      RecordType = ''CNAME'', SetIdentifier = getGeoFromLabel objectLabels, RecordTTL = 300,
      ProviderSpecific =
        (if getGeoFromLabel objectLabels = DefaultGeo then []
         else [(''geo-code'', getGeoFromLabel objectLabels)])\<rparr>"

definition defaultGeoCname :: "(string, string) gomap \<Rightarrow> string \<Rightarrow> Endpoint" where
  "defaultGeoCname objectLabels hostname =
     \<lparr>DNSName = lbName hostname, Targets = [geoLbName objectLabels hostname],
      RecordType = ''CNAME'', SetIdentifier = ''default'', RecordTTL = 300,
      ProviderSpecific = [(''geo-code'', ''*'')]\<rparr>"

definition hostCname :: "string \<Rightarrow> Endpoint" where
  "hostCname hostname =
     \<lparr>DNSName = hostname, Targets = [lbName hostname], RecordType = ''CNAME'',
      SetIdentifier = '''', RecordTTL = 300, ProviderSpecific = []\<rparr>"

text \<open>
  What \<open>getWeight\<close> finds at one custom weight: its selector converts and matches the
  labels, converts and does not match them, or does not convert.
\<close>

definition selectorMatches :: "LabelSelector \<Rightarrow> (string, string) gomap \<Rightarrow> bool" where
  "selectorMatches s ls =
     (case LabelSelectorAsSelector s of None \<Rightarrow> False | Some sel \<Rightarrow> Matches sel ls)"

definition selectorPasses :: "LabelSelector \<Rightarrow> (string, string) gomap \<Rightarrow> bool" where
  "selectorPasses s ls =
     (case LabelSelectorAsSelector s of None \<Rightarrow> False | Some sel \<Rightarrow> \<not> Matches sel ls)"

definition selectorInvalid :: "LabelSelector \<Rightarrow> bool" where
  "selectorInvalid s = isNil (LabelSelectorAsSelector s)"

text \<open>
  \<open>strings.Contains(s, substr)\<close>; an endpoint with its targets in ascending order, which
  is how two results are compared up to the order of targets; and what a result holds
  whatever the order among records of equal sort key: its records up to the order of
  targets, as a multiset, and the sequence of its sort keys.
\<close>

fun Contains :: "string \<Rightarrow> string \<Rightarrow> bool" where
  "Contains [] substr = (substr = [])"
| "Contains (c # cs) substr = (HasPrefix (c # cs) substr \<or> Contains cs substr)"

definition sortTargets :: "Endpoint \<Rightarrow> Endpoint" where
  "sortTargets e = e\<lparr>Targets := sort (Targets e)\<rparr>"

definition recordsAndKeys :: "Endpoint list \<Rightarrow> Endpoint multiset \<times> string list" where
  "recordsAndKeys endpoints = (mset (map sortTargets endpoints), map getSetID endpoints)"

section \<open>Inputs of the package's tests\<close>

text \<open>
  The tests of the package record two values of \<open>hash.ToBase36HashLen\<close> (\<open>clusterHash\<close>
  and \<open>gwHash\<close>); \<open>recordedHash\<close> returns them and a fixed text of the asked length
  elsewhere. It stands for the hash parameter where a theorem is applied to a concrete
  input.
\<close>

definition clusterID :: string where
  "clusterID = ''fbf71c44-6b37-4962-ace6-801912e769be''"

definition recordedHash :: "string \<Rightarrow> nat \<Rightarrow> string" where
  "recordedHash name n =
     (if name = clusterID then ''2q5hyv''
      else if name = ''TestName-TestNamespace'' then ''a8xcra''
      else replicate n CHR ''0'')"

definition TestNamespacedName :: NamespacedName where
  "TestNamespacedName = \<lparr>Namespace = ''TestNamespace'', Name = ''TestName''\<rparr>"

text \<open>Address maps: two IP addresses, one hostname, and one address of an unknown kind.\<close>

definition twoIPs :: "(string, string) gomap" where
  "twoIPs = Some [''127.0.0.1'' \<mapsto> ''IPAddress'', ''127.0.0.2'' \<mapsto> ''IPAddress'']"

definition oneHostname :: "(string, string) gomap" where
  "oneHostname = Some [''pat.the.cat'' \<mapsto> ''Hostname'']"

definition bogusKind :: "(string, string) gomap" where
  "bogusKind = Some [''pat.the.cat'' \<mapsto> ''Bogus'']"

text \<open>
  Object labels: none, the geo label with the default geo code of the tests and with
  another one, and the geo label together with the label of the custom weight.
\<close>

definition noLabels :: "(string, string) gomap" where
  "noLabels = Some Map.empty"

definition ieLabels :: "(string, string) gomap" where
  "ieLabels = Some [LabelLBAttributeGeoCode \<mapsto> ''IE'']"

definition cadLabels :: "(string, string) gomap" where
  "cadLabels = Some [LabelLBAttributeGeoCode \<mapsto> ''CAD'']"

definition fooLabels :: "(string, string) gomap" where
  "fooLabels = Some [LabelLBAttributeGeoCode \<mapsto> ''IE'', ''kuadrant.io/my-custom-weight-attr'' \<mapsto> ''FOO'']"

text \<open>
  Selectors and custom weights: the selector of the tests and its custom weight; a
  selector with neither field set; a custom weight whose selector converts and does not
  match the labels above; and one whose selector names an operator that is none of
  \<open>In\<close>, \<open>NotIn\<close>, \<open>Exists\<close>, \<open>DoesNotExist\<close>.
\<close>

definition fooSelector :: LabelSelector where
  "fooSelector =
     \<lparr>MatchLabels = Some [(''kuadrant.io/my-custom-weight-attr'', ''FOO'')],
      MatchExpressions = None\<rparr>"

definition emptySelector :: LabelSelector where
  "emptySelector = \<lparr>MatchLabels = None, MatchExpressions = None\<rparr>"

definition fooWeight :: CustomWeight where
  "fooWeight = \<lparr>Weight = 100, Selector = fooSelector\<rparr>"

definition goldWeight :: CustomWeight where
  "goldWeight =
     \<lparr>Weight = 50, Selector = \<lparr>MatchLabels = Some [(''tier'', ''gold'')], MatchExpressions = None\<rparr>\<rparr>"

definition badOperatorWeight :: CustomWeight where
  "badOperatorWeight =
     \<lparr>Weight = 50,
      Selector = \<lparr>MatchLabels = None,
                  MatchExpressions = Some [\<lparr>Key = ''tier'', Operator = ''Equals'', Values = [''gold'']\<rparr>]\<rparr>\<rparr>"

text \<open>\<open>NewRoutingBuilder().WithAddresses(addresses).WithLoadBalancing(clusterID, "IE", 120).WithCustomWeights(weights)\<close>\<close>

definition loadBalanced :: "(string, string) gomap \<Rightarrow> CustomWeight list \<Rightarrow> Routing" where
  "loadBalanced addresses weights =
     \<lparr>Addresses = addresses, Strategy = LoadBalancedRoutingStrategy, DefaultGeoCode = ''IE'',
      DefaultWeight = 120, CustomWeights = weights, ClusterID = clusterID\<rparr>"

text \<open>\<open>NewRoutingBuilder().WithAddresses(addresses)\<close>\<close>

definition simple :: "(string, string) gomap \<Rightarrow> Routing" where
  "simple addresses =
     \<lparr>Addresses = addresses, Strategy = SimpleRoutingStrategy, DefaultGeoCode = '''',
      DefaultWeight = 0, CustomWeights = [], ClusterID = ''''\<rparr>"

section \<open>Facts about the model\<close>

subsection \<open>Ranging over the addresses map\<close>

lemma mapRange_nil [simp]: "mapRange ord None = []"
  by (induction ord) (simp_all add: mapRange_def mapIndex_def List.map_filter_simps)

lemma targets_foldl:
  "foldl (\<lambda>(ipValues, hostValues) (key, val).
              if val = ''IPAddress'' then (ipValues @ [key], hostValues)
              else (ipValues, hostValues @ [key])) (ips, hosts) kvs
   = (ips @ map fst (filter (\<lambda>(k, v). v = ''IPAddress'') kvs),
      hosts @ map fst (filter (\<lambda>(k, v). v \<noteq> ''IPAddress'') kvs))"
  by (induction kvs arbitrary: ips hosts) (auto split: prod.splits)

lemma targetsFromAddresses_eq:
  "targetsFromAddresses ord m =
     (filter (\<lambda>k. mapIndex m k = Some ''IPAddress'') ord,
      filter (\<lambda>k. \<exists>v. mapIndex m k = Some v \<and> v \<noteq> ''IPAddress'') ord)"
proof -
  have "map fst (filter (\<lambda>(k, v). P v) (mapRange ord m))
        = filter (\<lambda>k. \<exists>v. mapIndex m k = Some v \<and> P v) ord" for P
    by (induction ord) (auto simp: mapRange_def List.map_filter_simps split: option.splits)
  from this[of "\<lambda>v. v = ''IPAddress''"] this[of "\<lambda>v. v \<noteq> ''IPAddress''"]
  show ?thesis
    by (simp add: targetsFromAddresses_def targets_foldl)
qed

lemma targets_sets:
  assumes "rangeOrder ord m"
  shows "set (fst (targetsFromAddresses ord m)) = {a. mapIndex m a = Some ''IPAddress''}"
    and "set (snd (targetsFromAddresses ord m)) = {a. \<exists>kind. mapIndex m a = Some kind \<and> kind \<noteq> ''IPAddress''}"
    and "distinct (fst (targetsFromAddresses ord m))"
    and "distinct (snd (targetsFromAddresses ord m))"
  using assms
  by (auto simp: targetsFromAddresses_eq rangeOrder_def mapKeys_def mapIndex_def split: option.splits)

lemma mapKeys_empty_index: "mapKeys m = {} \<Longrightarrow> mapIndex m k = None"
  by (auto simp: mapKeys_def mapIndex_def split: option.splits)

lemma rangeOrder_twoIPs: "rangeOrder [''127.0.0.1'', ''127.0.0.2''] twoIPs"
  by (auto simp: rangeOrder_def twoIPs_def mapKeys_def)

lemma rangeOrder_twoIPs_swapped: "rangeOrder [''127.0.0.2'', ''127.0.0.1''] twoIPs"
  by (auto simp: rangeOrder_def twoIPs_def mapKeys_def)

lemma rangeOrder_oneHostname: "rangeOrder [''pat.the.cat''] oneHostname"
  by (auto simp: rangeOrder_def oneHostname_def mapKeys_def)

subsection \<open>Validation\<close>

lemmas routing_consts =
  SimpleRoutingStrategy_def LoadBalancedRoutingStrategy_def

lemma Validate_simple: "Strategy r = SimpleRoutingStrategy \<Longrightarrow> Validate r = None"
  by (simp add: Validate_def)

lemma Validate_loadBalanced_twoIPs: "Validate (loadBalanced twoIPs []) = None"
  by (simp add: Validate_def loadBalanced_def twoIPs_def routing_consts isNil_def clusterID_def)

lemma validateCustomWeights_wellFormed:
  "list_all wellFormedWeight cws \<Longrightarrow> validateCustomWeights (cws @ rest) = validateCustomWeights rest"
  by (induction cws) (auto simp: wellFormedWeight_def isNil_def lenOf_def split: option.splits)

subsection \<open>Sorting by set identifier\<close>

text \<open>
  The insertion sort is the stable sort by the key: it returns the sorted permutation in
  which records of equal key keep their order.
\<close>

lemma sinkLeft_sorted:
  fixes f :: "'a \<Rightarrow> 'k::linorder"
  assumes "sorted (map f zs)"
  shows "rev (sinkLeft (\<lambda>a b. f a < f b) x (rev zs)) =
         filter (\<lambda>y. \<not> f x < f y) zs @ [x] @ filter (\<lambda>y. f x < f y) zs"
  using assms
proof (induction zs rule: rev_induct)
  case Nil
  then show ?case by simp
next
  case (snoc y zs)
  from snoc.prems have s: "sorted (map f zs)" and le: "\<forall>z \<in> set zs. f z \<le> f y"
    by (auto simp: sorted_append)
  show ?case
  proof (cases "f x < f y")
    case True
    with snoc.IH[OF s] show ?thesis by simp
  next
    case False
    with le have "\<forall>z \<in> set zs. \<not> f x < f z" by auto
    then have "filter (\<lambda>y. \<not> f x < f y) zs = zs" "filter (\<lambda>y. f x < f y) zs = []"
      by (auto simp: filter_empty_conv)
    with False show ?thesis by simp
  qed
qed

lemma insertionSort_snoc:
  "insertionSort lessFn (xs @ [x]) = rev (sinkLeft lessFn x (rev (insertionSort lessFn xs)))"
  by (simp add: insertionSort_def)

lemma insertionSort_properties:
  fixes f :: "'a \<Rightarrow> 'k::linorder"
  shows "mset (insertionSort (\<lambda>a b. f a < f b) xs) = mset xs \<and>
         sorted (map f (insertionSort (\<lambda>a b. f a < f b) xs)) \<and>
         (\<forall>k. filter (\<lambda>y. f y = k) (insertionSort (\<lambda>a b. f a < f b) xs) = filter (\<lambda>y. f y = k) xs)"
proof (induction xs rule: rev_induct)
  case Nil
  then show ?case by (simp add: insertionSort_def)
next
  case (snoc x xs)
  let ?zs = "insertionSort (\<lambda>a b. f a < f b) xs"
  from snoc have m: "mset ?zs = mset xs" and s: "sorted (map f ?zs)"
    and st: "\<And>k. filter (\<lambda>y. f y = k) ?zs = filter (\<lambda>y. f y = k) xs"
    by auto
  have eq: "insertionSort (\<lambda>a b. f a < f b) (xs @ [x]) =
      filter (\<lambda>y. \<not> f x < f y) ?zs @ [x] @ filter (\<lambda>y. f x < f y) ?zs"
    by (simp only: insertionSort_snoc sinkLeft_sorted[OF s])
  have "mset (filter (\<lambda>y. \<not> f x < f y) zs) + mset (filter (\<lambda>y. f x < f y) zs) = mset zs"
    for zs :: "'a list"
    by (induction zs) auto
  from this[of ?zs] have 1: "mset (insertionSort (\<lambda>a b. f a < f b) (xs @ [x])) = mset (xs @ [x])"
    unfolding eq using m by (simp del: mset_filter)
  have 2: "sorted (map f (insertionSort (\<lambda>a b. f a < f b) (xs @ [x])))"
    unfolding eq using s by (auto simp: sorted_append sorted_filter intro: less_imp_le)
  have 3: "filter (\<lambda>y. f y = k) (insertionSort (\<lambda>a b. f a < f b) (xs @ [x])) =
           filter (\<lambda>y. f y = k) (xs @ [x])" for k
  proof -
    have a: "filter (\<lambda>y. f y = k) (filter (\<lambda>y. \<not> f x < f y) zs) =
             (if f x < k then [] else filter (\<lambda>y. f y = k) zs)" for zs :: "'a list"
      by (induction zs) auto
    have b: "filter (\<lambda>y. f y = k) (filter (\<lambda>y. f x < f y) zs) =
             (if f x < k then filter (\<lambda>y. f y = k) zs else [])" for zs :: "'a list"
      by (induction zs) auto
    have "filter (\<lambda>y. f y = k) (insertionSort (\<lambda>a b. f a < f b) (xs @ [x])) =
          filter (\<lambda>y. f y = k) (filter (\<lambda>y. \<not> f x < f y) ?zs) @ filter (\<lambda>y. f y = k) [x] @
          filter (\<lambda>y. f y = k) (filter (\<lambda>y. f x < f y) ?zs)"
      by (simp only: eq filter_append)
    also have "\<dots> = (if f x < k then [] else filter (\<lambda>y. f y = k) ?zs) @
          filter (\<lambda>y. f y = k) [x] @ (if f x < k then filter (\<lambda>y. f y = k) ?zs else [])"
      by (simp only: a b)
    also have "\<dots> = filter (\<lambda>y. f y = k) ?zs @ filter (\<lambda>y. f y = k) [x]"
      by auto
    also have "\<dots> = filter (\<lambda>y. f y = k) (xs @ [x])"
      by (simp only: st filter_append)
    finally show ?thesis .
  qed
  from 1 2 3 show ?case by blast
qed

lemma insertionSort_sort_key:
  fixes f :: "'a \<Rightarrow> 'k::linorder"
  shows "insertionSort (\<lambda>a b. f a < f b) xs = sort_key f xs"
proof (rule properties_for_sort_key[symmetric])
  note p = insertionSort_properties[of f xs]
  show "mset (insertionSort (\<lambda>a b. f a < f b) xs) = mset xs" using p by blast
  show "sorted (map f (insertionSort (\<lambda>a b. f a < f b) xs))" using p by blast
  fix k
  have "filter (\<lambda>y. f k = f y) zs = filter (\<lambda>y. f y = f k) zs" for zs :: "'a list"
    by (rule filter_cong) auto
  with p show "filter (\<lambda>y. f k = f y) (insertionSort (\<lambda>a b. f a < f b) xs) = filter (\<lambda>y. f k = f y) xs"
    by simp
qed

lemma sortSlice_sort_key: "sortSlice endpoints = sort_key getSetID endpoints"
  by (simp only: sortSlice_def insertionSort_sort_key)

lemma sortSlice_Nil [simp]: "sortSlice [] = []"
  by (simp add: sortSlice_sort_key)

lemma set_sortSlice [simp]: "set (sortSlice xs) = set xs"
  by (simp add: sortSlice_sort_key)

lemma length_sortSlice [simp]: "length (sortSlice xs) = length xs"
  by (simp add: sortSlice_sort_key)

lemma sortSlice_single [simp]: "sortSlice [a] = [a]"
  by (simp add: sortSlice_sort_key)

lemma sortSlice_same_key:
  "getSetID a = getSetID b \<Longrightarrow> sortSlice [a, b] = [a, b]"
  by (simp add: sortSlice_sort_key)

subsection \<open>The simple strategy\<close>

lemma GenerateEndpoints_simple:
  "Strategy r = SimpleRoutingStrategy \<Longrightarrow> hostname \<noteq> '''' \<Longrightarrow>
   GenerateEndpoints h ord nn labels hostname r =
     Inr (sortSlice (getSimpleEndpoints ord (Addresses r) hostname))"
  by (simp add: GenerateEndpoints_def Validate_simple)

lemma getSimpleEndpoints_eq:
  "getSimpleEndpoints ord m hostname =
     (if fst (targetsFromAddresses ord m) = [] then []
      else [createEndpoint hostname (fst (targetsFromAddresses ord m)) ARecordType '''' DefaultTTL]) @
     (if snd (targetsFromAddresses ord m) = [] then []
      else [createEndpoint hostname (snd (targetsFromAddresses ord m)) CNAMERecordType '''' DefaultTTL])"
  by (simp add: getSimpleEndpoints_def Let_def split: prod.splits)

subsection \<open>The load-balanced chain\<close>

lemmas record_consts =
  ARecordType_def CNAMERecordType_def DefaultTTL_def DefaultCnameTTL_def
  ProviderSpecificWeight_def ProviderSpecificGeoCode_def WildcardGeo_def

lemma weightedEndpoint_eq: "weightedEndpoint = weightedCname"
  by (intro ext)
     (simp add: weightedEndpoint_def weightedCname_def createEndpoint_def
        SetProviderSpecificProperty_def record_consts)

lemma getLoadBalancedEndpoints_eq:
  "getLoadBalancedEndpoints h ord nn objectLabels r hostname =
     (if hostTargets h ord nn r hostname = [] then []
      else clusterEndpoints h ord nn r hostname @
           map (weightedCname objectLabels r hostname) (hostTargets h ord nn r hostname) @
           geoCname objectLabels hostname #
           (if getGeoFromLabel objectLabels = DefaultGeoCode r
            then [defaultGeoCname objectLabels hostname] else []) @
           [hostCname hostname])"
  by (simp add: getLoadBalancedEndpoints_def Let_def hostTargets_def clusterEndpoints_def
        weightedEndpoint_eq geoCname_def defaultGeoCname_def hostCname_def createEndpoint_def
        SetProviderSpecificProperty_def record_consts
      split: prod.splits)

lemma GenerateEndpoints_loadBalanced:
  assumes "hostname \<noteq> ''''" "Strategy r = LoadBalancedRoutingStrategy" "Validate r = None"
  shows "GenerateEndpoints h ord nn (Some ls) hostname r =
     Inr (sortSlice (getLoadBalancedEndpoints h ord nn (Some ls) r hostname))"
  using assms by (simp add: GenerateEndpoints_def routing_consts isNil_def)

lemma set_getLoadBalancedEndpoints:
  "set (getLoadBalancedEndpoints h ord nn objectLabels r hostname) =
     (if hostTargets h ord nn r hostname = [] then {}
      else set (clusterEndpoints h ord nn r hostname) \<union>
           weightedCname objectLabels r hostname ` set (hostTargets h ord nn r hostname) \<union>
           {geoCname objectLabels hostname, hostCname hostname} \<union>
           (if getGeoFromLabel objectLabels = DefaultGeoCode r
            then {defaultGeoCname objectLabels hostname} else {}))"
  by (auto simp: getLoadBalancedEndpoints_eq)

lemma hostTargets_nonempty:
  assumes "rangeOrder ord (Addresses r)" "mapKeys (Addresses r) \<noteq> {}"
  shows "hostTargets h ord nn r hostname \<noteq> []"
proof -
  from assms obtain a where a: "a \<in> set ord" "a \<in> mapKeys (Addresses r)"
    by (auto simp: rangeOrder_def)
  then obtain kind where "mapIndex (Addresses r) a = Some kind"
    by (auto simp: mapKeys_def mapIndex_def split: option.splits)
  with a show ?thesis
    by (cases "kind = ''IPAddress''")
       (auto simp: hostTargets_def targetsFromAddresses_eq filter_empty_conv)
qed

lemma last_getLoadBalancedEndpoints:
  "hostTargets h ord nn r hostname \<noteq> [] \<Longrightarrow>
   last (getLoadBalancedEndpoints h ord nn objectLabels r hostname) = hostCname hostname"
  by (simp add: getLoadBalancedEndpoints_eq)

lemma length_getLoadBalancedEndpoints:
  "length (getLoadBalancedEndpoints h ord nn objectLabels r hostname) \<le> length ord + 4"
proof -
  let ?m = "Addresses r"
  have "length (filter (\<lambda>k. \<exists>v. mapIndex ?m k = Some v \<and> v \<noteq> ''IPAddress'') ord)
        \<le> length (filter (\<lambda>k. \<not> mapIndex ?m k = Some ''IPAddress'') ord)"
    by (induction ord) auto
  then have sum: "length (fst (targetsFromAddresses ord ?m)) + length (snd (targetsFromAddresses ord ?m))
        \<le> length ord"
    using sum_length_filter_compl[of "\<lambda>k. mapIndex ?m k = Some ''IPAddress''" ord]
    by (simp add: targetsFromAddresses_eq)
  show ?thesis
  proof (cases "fst (targetsFromAddresses ord ?m) = []")
    case True
    with sum show ?thesis
      by (simp add: getLoadBalancedEndpoints_eq hostTargets_def clusterEndpoints_def)
  next
    case False
    then obtain x xs where "fst (targetsFromAddresses ord ?m) = x # xs"
      by (cases "fst (targetsFromAddresses ord ?m)") auto
    with sum show ?thesis
      by (simp add: getLoadBalancedEndpoints_eq hostTargets_def clusterEndpoints_def)
  qed
qed

lemma at_most_twelve_endpoints:
  assumes "Strategy r = SimpleRoutingStrategy \<or> length ord \<le> 8"
    and "GenerateEndpoints h ord nn objectLabels hostname r = Inr endpoints"
  shows "length endpoints \<le> 12"
proof (cases "Strategy r = SimpleRoutingStrategy")
  case True
  with assms(2) have "endpoints = sortSlice (getSimpleEndpoints ord (Addresses r) hostname)"
    by (auto simp: GenerateEndpoints_def split: if_splits option.splits)
  then show ?thesis by (simp add: getSimpleEndpoints_eq)
next
  case False
  with assms(2) have "endpoints =
      sortSlice (getLoadBalancedEndpoints h ord nn objectLabels r hostname)"
    by (auto simp: GenerateEndpoints_def split: if_splits option.splits)
  with False assms(1) length_getLoadBalancedEndpoints[of h ord nn objectLabels r hostname]
  show ?thesis by simp
qed

subsection \<open>Custom weights\<close>

lemma getWeightFrom_passes:
  "list_all (\<lambda>c. selectorPasses (Selector c) ls) pre \<Longrightarrow>
   getWeightFrom w (pre @ rest) ls = getWeightFrom w rest ls"
  by (induction pre) (auto simp: selectorPasses_def split: option.splits)

lemma fooSelector_selector:
  "LabelSelectorAsSelector fooSelector =
     Some [Requirement ''kuadrant.io/my-custom-weight-attr'' OpEquals [''FOO'']]"
  by code_simp

lemma getWeight_foo:
  "getWeight (loadBalanced addresses [fooWeight]) ls =
     (if mapIndex ls ''kuadrant.io/my-custom-weight-attr'' = Some ''FOO'' then 100 else 120)"
  by (simp add: getWeight_def loadBalanced_def fooWeight_def fooSelector_selector Matches_def
        requirementMatches_def split: option.splits)

subsection \<open>The names of the chain\<close>

lemma length_ToLower [simp]: "length (ToLower s) = length s"
  by (simp add: ToLower_def)

lemma ToLower_append: "ToLower (a @ b) = ToLower a @ ToLower b"
  by (simp add: ToLower_def)

lemma ToLower_klb: "ToLower ''klb.'' = ''klb.''"
  by code_simp

lemma lbName_eq: "lbName hostname = ''klb.'' @ ToLower (cnameHost hostname)"
  by (simp only: lbName_def ToLower_append ToLower_klb)

lemma geoLbName_neq_lbName: "geoLbName objectLabels hostname \<noteq> lbName hostname"
proof
  assume "geoLbName objectLabels hostname = lbName hostname"
  then have "length (geoLbName objectLabels hostname) = length (lbName hostname)" by simp
  then show False by (simp add: geoLbName_def)
qed

lemma clusterLbName_neq_lbName: "clusterLbName h nn r hostname \<noteq> lbName hostname"
proof
  assume "clusterLbName h nn r hostname = lbName hostname"
  then have "length (clusterLbName h nn r hostname) = length (lbName hostname)" by simp
  then show False by (simp add: clusterLbName_def)
qed

lemma hostname_neq_lbName: "hostname \<noteq> lbName hostname"
proof (cases "isWildCardHost hostname")
  case True
  then obtain rest where "hostname = CHR ''*'' # rest"
    by (cases hostname) (auto simp: isWildCardHost_def HasPrefix_def)
  then show ?thesis by (simp add: lbName_eq)
next
  case False
  then have "length (lbName hostname) = 4 + length hostname"
    by (simp add: lbName_eq cnameHost_def)
  then show ?thesis by auto
qed

lemma filter_lbName:
  "filter (\<lambda>e. DNSName e = lbName hostname) (getLoadBalancedEndpoints h ord nn objectLabels r hostname) =
     (if hostTargets h ord nn r hostname = [] then []
      else geoCname objectLabels hostname #
           (if getGeoFromLabel objectLabels = DefaultGeoCode r
            then [defaultGeoCname objectLabels hostname] else []))"
  using geoLbName_neq_lbName[of objectLabels hostname] clusterLbName_neq_lbName[of h nn r hostname]
    hostname_neq_lbName[of hostname]
  by (auto simp: getLoadBalancedEndpoints_eq clusterEndpoints_def weightedCname_def geoCname_def
      defaultGeoCname_def hostCname_def filter_empty_conv)

lemma lbName_records:
  assumes "hostTargets h ord nn r hostname \<noteq> []"
  shows "mset (filter (\<lambda>e. DNSName e = lbName hostname)
           (sortSlice (getLoadBalancedEndpoints h ord nn objectLabels r hostname))) =
         {#geoCname objectLabels hostname#} +
         (if getGeoFromLabel objectLabels = DefaultGeoCode r
          then {#defaultGeoCname objectLabels hostname#} else {#})"
proof -
  have "mset (filter (\<lambda>e. DNSName e = lbName hostname)
           (sortSlice (getLoadBalancedEndpoints h ord nn objectLabels r hostname))) =
        mset (filter (\<lambda>e. DNSName e = lbName hostname)
           (getLoadBalancedEndpoints h ord nn objectLabels r hostname))"
    by (simp add: sortSlice_sort_key)
  also have "filter (\<lambda>e. DNSName e = lbName hostname)
           (getLoadBalancedEndpoints h ord nn objectLabels r hostname) =
         geoCname objectLabels hostname #
           (if getGeoFromLabel objectLabels = DefaultGeoCode r
            then [defaultGeoCname objectLabels hostname] else [])"
    using assms by (simp add: filter_lbName)
  finally show ?thesis by simp
qed

lemma Replace_absent: "\<not> Contains s old \<Longrightarrow> Replace s old new = s"
  by (induction s) auto

lemma cnameHost_wildcard:
  assumes "\<not> Contains rest ''*.''"
  shows "cnameHost (''*.'' @ rest) = rest"
  using Replace_absent[OF assms, of "''''"]
  by (simp add: cnameHost_def isWildCardHost_def HasPrefix_def)

subsection \<open>Results up to the order of targets\<close>

lemma getSetID_sortTargets [simp]: "getSetID (sortTargets e) = getSetID e"
  by (simp add: getSetID_def sortTargets_def)

lemma insort_key_map_invariant:
  assumes "\<And>x. f (g x) = f x"
  shows "map g (insort_key f x xs) = insort_key f (g x) (map g xs)"
  by (induction xs) (simp_all add: assms)

lemma sort_key_map_invariant:
  assumes "\<And>x. f (g x) = f x"
  shows "map g (sort_key f xs) = sort_key f (map g xs)"
  using assms by (induction xs) (simp_all add: insort_key_map_invariant)

lemma map_sortTargets_sortSlice:
  "map sortTargets (sortSlice xs) = sortSlice (map sortTargets xs)"
  unfolding sortSlice_sort_key by (rule sort_key_map_invariant) simp

lemma sort_key_stable_unique:
  assumes "mset xs = mset ys"
    and "\<And>k. filter (\<lambda>x. f x = k) xs = filter (\<lambda>x. f x = k) ys"
  shows "sort_key f xs = sort_key f ys"
proof (rule properties_for_sort_key)
  show "mset (sort_key f ys) = mset xs" using assms(1) by simp
  show "sorted (map f (sort_key f ys))" by simp
  fix k
  have "filter (\<lambda>x. f k = f x) (sort_key f ys) = filter (\<lambda>x. f x = f k) (sort_key f ys)"
    by (rule filter_cong) auto
  also have "\<dots> = filter (\<lambda>x. f x = f k) ys" by (rule sort_key_stable)
  also have "\<dots> = filter (\<lambda>x. f x = f k) xs" by (rule assms(2)[symmetric])
  also have "\<dots> = filter (\<lambda>x. f k = f x) xs" by (rule filter_cong) auto
  finally show "filter (\<lambda>x. f k = f x) (sort_key f ys) = filter (\<lambda>x. f k = f x) xs" .
qed

lemma filter_eq_distinct:
  "distinct xs \<Longrightarrow> filter (\<lambda>x. x = a) xs = (if a \<in> set xs then [a] else [])"
  by (induction xs) auto

lemma filter_inj_key:
  assumes "distinct xs" "distinct ys" "set xs = set ys" "inj_on k (set xs)"
  shows "filter (\<lambda>x. k x = v) xs = filter (\<lambda>x. k x = v) ys"
proof (cases "\<exists>a \<in> set xs. k a = v")
  case False
  with assms(3) show ?thesis by (simp add: filter_empty_conv[THEN iffD2])
next
  case True
  then obtain a where a: "a \<in> set xs" "k a = v" by blast
  have eq: "(k x = v) = (x = a)" if "x \<in> set xs" for x
    using that a assms(4) by (auto dest: inj_onD)
  have "filter (\<lambda>x. k x = v) xs = filter (\<lambda>x. x = a) xs"
    by (rule filter_cong) (auto simp: eq)
  moreover have "filter (\<lambda>x. k x = v) ys = filter (\<lambda>x. x = a) ys"
    by (rule filter_cong) (auto simp: eq assms(3)[symmetric])
  ultimately show ?thesis
    using assms(1-3) by (simp add: filter_eq_distinct)
qed

lemma targets_order_invariant:
  assumes "rangeOrder ord1 m" "rangeOrder ord2 m"
  shows "sort (fst (targetsFromAddresses ord1 m)) = sort (fst (targetsFromAddresses ord2 m))"
    and "sort (snd (targetsFromAddresses ord1 m)) = sort (snd (targetsFromAddresses ord2 m))"
    and "(fst (targetsFromAddresses ord1 m) = []) = (fst (targetsFromAddresses ord2 m) = [])"
    and "(snd (targetsFromAddresses ord1 m) = []) = (snd (targetsFromAddresses ord2 m) = [])"
    and "mset (snd (targetsFromAddresses ord1 m)) = mset (snd (targetsFromAddresses ord2 m))"
proof -
  note s1 = targets_sets[OF assms(1)] and s2 = targets_sets[OF assms(2)]
  have f: "mset (fst (targetsFromAddresses ord1 m)) = mset (fst (targetsFromAddresses ord2 m))"
    using s1(1,3) s2(1,3) by (simp add: set_eq_iff_mset_eq_distinct[symmetric])
  show g: "mset (snd (targetsFromAddresses ord1 m)) = mset (snd (targetsFromAddresses ord2 m))"
    using s1(2,4) s2(2,4) by (simp add: set_eq_iff_mset_eq_distinct[symmetric])
  show "sort (fst (targetsFromAddresses ord1 m)) = sort (fst (targetsFromAddresses ord2 m))"
    using f by (intro properties_for_sort) simp_all
  show "sort (snd (targetsFromAddresses ord1 m)) = sort (snd (targetsFromAddresses ord2 m))"
    using g by (intro properties_for_sort) simp_all
  show "(fst (targetsFromAddresses ord1 m) = []) = (fst (targetsFromAddresses ord2 m) = [])"
    using s1(1) s2(1) by (metis set_empty)
  show "(snd (targetsFromAddresses ord1 m) = []) = (snd (targetsFromAddresses ord2 m) = [])"
    using s1(2) s2(2) by (metis set_empty)
qed

lemma sortTargets_records [simp]:
  "sortTargets (createEndpoint n ts ty s ttl) = createEndpoint n (sort ts) ty s ttl"
  "sortTargets (weightedCname objectLabels r hostname t) = weightedCname objectLabels r hostname t"
  "sortTargets (geoCname objectLabels hostname) = geoCname objectLabels hostname"
  "sortTargets (defaultGeoCname objectLabels hostname) = defaultGeoCname objectLabels hostname"
  "sortTargets (hostCname hostname) = hostCname hostname"
  by (simp_all add: sortTargets_def createEndpoint_def weightedCname_def geoCname_def
      defaultGeoCname_def hostCname_def)

lemma simple_order_invariant:
  assumes "rangeOrder ord1 m" "rangeOrder ord2 m"
  shows "map sortTargets (getSimpleEndpoints ord1 m hostname) =
         map sortTargets (getSimpleEndpoints ord2 m hostname)"
  using targets_order_invariant[OF assms]
  by (simp add: getSimpleEndpoints_eq)

lemma weighted_filter_invariant:
  assumes "distinct xs" "distinct ys" "set xs = set ys"
  shows "filter (\<lambda>e. getSetID e = k) (map (weightedCname objectLabels r hostname) xs) =
         filter (\<lambda>e. getSetID e = k) (map (weightedCname objectLabels r hostname) ys)"
proof -
  have inj: "inj_on (\<lambda>t. getSetID (weightedCname objectLabels r hostname t)) (set xs)"
    by (rule inj_onI) (simp add: getSetID_def weightedCname_def)
  show ?thesis
    using filter_inj_key[OF assms inj, of k]
    by (simp add: filter_map comp_def)
qed

lemma loadBalanced_order_invariant:
  assumes "rangeOrder ord1 (Addresses r)" "rangeOrder ord2 (Addresses r)"
  shows "map sortTargets (sortSlice (getLoadBalancedEndpoints h ord1 nn objectLabels r hostname)) =
         map sortTargets (sortSlice (getLoadBalancedEndpoints h ord2 nn objectLabels r hostname))"
proof -
  note inv = targets_order_invariant[OF assms]
  note s1 = targets_sets[OF assms(1)] and s2 = targets_sets[OF assms(2)]
  let ?hosts1 = "snd (targetsFromAddresses ord1 (Addresses r))"
  let ?hosts2 = "snd (targetsFromAddresses ord2 (Addresses r))"
  have empty: "(hostTargets h ord1 nn r hostname = []) = (hostTargets h ord2 nn r hostname = [])"
    using inv(3,4) by (simp add: hostTargets_def)
  have cluster: "map sortTargets (clusterEndpoints h ord1 nn r hostname) =
                 map sortTargets (clusterEndpoints h ord2 nn r hostname)"
    using inv(1,3) by (simp add: clusterEndpoints_def sortTargets_def)
  obtain P S where
    L1: "map sortTargets (getLoadBalancedEndpoints h ord1 nn objectLabels r hostname) =
           (if hostTargets h ord1 nn r hostname = [] then []
            else P @ map (weightedCname objectLabels r hostname) ?hosts1 @ S)"
    and L2: "map sortTargets (getLoadBalancedEndpoints h ord2 nn objectLabels r hostname) =
           (if hostTargets h ord2 nn r hostname = [] then []
            else P @ map (weightedCname objectLabels r hostname) ?hosts2 @ S)"
  proof
    let ?P = "map sortTargets (clusterEndpoints h ord1 nn r hostname)"
    let ?S = "map (weightedCname objectLabels r hostname)
                (if fst (targetsFromAddresses ord1 (Addresses r)) = [] then []
                 else [clusterLbName h nn r hostname]) @
              geoCname objectLabels hostname #
              (if getGeoFromLabel objectLabels = DefaultGeoCode r
               then [defaultGeoCname objectLabels hostname] else []) @
              [hostCname hostname]"
    show "map sortTargets (getLoadBalancedEndpoints h ord1 nn objectLabels r hostname) =
           (if hostTargets h ord1 nn r hostname = [] then []
            else ?P @ map (weightedCname objectLabels r hostname) ?hosts1 @ ?S)"
      by (simp add: getLoadBalancedEndpoints_eq hostTargets_def comp_def)
    show "map sortTargets (getLoadBalancedEndpoints h ord2 nn objectLabels r hostname) =
           (if hostTargets h ord2 nn r hostname = [] then []
            else ?P @ map (weightedCname objectLabels r hostname) ?hosts2 @ ?S)"
      using inv(3) by (simp add: getLoadBalancedEndpoints_eq hostTargets_def comp_def cluster)
  qed
  have "sortSlice (P @ map (weightedCname objectLabels r hostname) ?hosts1 @ S) =
        sortSlice (P @ map (weightedCname objectLabels r hostname) ?hosts2 @ S)"
    unfolding sortSlice_sort_key
  proof (rule sort_key_stable_unique)
    show "mset (P @ map (weightedCname objectLabels r hostname) ?hosts1 @ S) =
          mset (P @ map (weightedCname objectLabels r hostname) ?hosts2 @ S)"
      using inv(5) by simp
    fix k
    show "filter (\<lambda>e. getSetID e = k) (P @ map (weightedCname objectLabels r hostname) ?hosts1 @ S) =
          filter (\<lambda>e. getSetID e = k) (P @ map (weightedCname objectLabels r hostname) ?hosts2 @ S)"
      using weighted_filter_invariant[OF s1(4) s2(4), of k objectLabels r hostname] s1(2) s2(2)
      by simp
  qed
  then show ?thesis
    using empty by (simp add: map_sortTargets_sortSlice L1 L2)
qed

lemma recordsAndKeys_sortTargets:
  "recordsAndKeys endpoints = (mset (map sortTargets endpoints), map getSetID (map sortTargets endpoints))"
  by (simp add: recordsAndKeys_def comp_def)

lemma generate_order_invariant:
  assumes "rangeOrder ord1 (Addresses r)" and "rangeOrder ord2 (Addresses r)"
  shows "map_sum id (map sortTargets) (GenerateEndpoints h ord1 nn objectLabels hostname r) =
         map_sum id (map sortTargets) (GenerateEndpoints h ord2 nn objectLabels hostname r)"
  using simple_order_invariant[OF assms, of hostname] loadBalanced_order_invariant[OF assms]
  by (simp add: GenerateEndpoints_def map_sortTargets_sortSlice split: option.splits)

section \<open>C1: determinism\<close>

text \<open>
  C1, as the code has it. For every fixed input tuple (namespacedName, objectLabels,
  hostname, routing), two calls of \<open>GenerateEndpoints\<close> give the same error, or the same
  endpoints up to the order of the targets inside an endpoint: whatever the orders in
  which the two calls range over the addresses map, the two results hold the same records
  once the targets of every record are sorted, and the same sequence of sort keys
  \<open>dnsName + setIdentifier\<close>. For the simple strategy, and for a load-balanced routing
  with at most eight addresses (at most twelve endpoints, lemma
  \<open>at_most_twelve_endpoints\<close>, which \<open>sort.Slice\<close> sorts by insertion, keeping the order
  of records of equal key), the two results are the same list once the targets of every
  record are sorted.
\<close>

theorem deterministic_up_to_target_order:
  assumes "rangeOrder ord1 (Addresses r)" and "rangeOrder ord2 (Addresses r)"
  shows "map_sum id recordsAndKeys (GenerateEndpoints h ord1 nn objectLabels hostname r) =
         map_sum id recordsAndKeys (GenerateEndpoints h ord2 nn objectLabels hostname r) \<and>
         (Strategy r = SimpleRoutingStrategy \<or> length ord1 \<le> 8 \<longrightarrow>
          map_sum id (map sortTargets) (GenerateEndpoints h ord1 nn objectLabels hostname r) =
          map_sum id (map sortTargets) (GenerateEndpoints h ord2 nn objectLabels hostname r))"
proof -
  note eq = generate_order_invariant[OF assms, of h nn objectLabels hostname]
  have "map_sum id recordsAndKeys x = map_sum id recordsAndKeys y"
    if "map_sum id (map sortTargets) x = map_sum id (map sortTargets) y"
    for x y :: "error + Endpoint list"
    using that by (cases x; cases y) (simp_all add: recordsAndKeys_sortTargets)
  from this[OF eq] eq show ?thesis by blast
qed

theorem deterministic_up_to_target_order_witness:
  "rangeOrder [''127.0.0.1'', ''127.0.0.2''] (Addresses (loadBalanced twoIPs [])) \<and>
   rangeOrder [''127.0.0.2'', ''127.0.0.1''] (Addresses (loadBalanced twoIPs [])) \<and>
   length [''127.0.0.1'', ''127.0.0.2''] \<le> 8 \<and>
   map_sum id recordsAndKeys
     (GenerateEndpoints recordedHash [''127.0.0.1'', ''127.0.0.2''] TestNamespacedName ieLabels
        ''test.example.com'' (loadBalanced twoIPs [])) =
   map_sum id recordsAndKeys
     (GenerateEndpoints recordedHash [''127.0.0.2'', ''127.0.0.1''] TestNamespacedName ieLabels
        ''test.example.com'' (loadBalanced twoIPs [])) \<and>
   map_sum id (map sortTargets)
     (GenerateEndpoints recordedHash [''127.0.0.1'', ''127.0.0.2''] TestNamespacedName ieLabels
        ''test.example.com'' (loadBalanced twoIPs [])) =
   map_sum id (map sortTargets)
     (GenerateEndpoints recordedHash [''127.0.0.2'', ''127.0.0.1''] TestNamespacedName ieLabels
        ''test.example.com'' (loadBalanced twoIPs []))"
proof -
  have o1: "rangeOrder [''127.0.0.1'', ''127.0.0.2''] (Addresses (loadBalanced twoIPs []))"
    using rangeOrder_twoIPs by (simp add: loadBalanced_def)
  have o2: "rangeOrder [''127.0.0.2'', ''127.0.0.1''] (Addresses (loadBalanced twoIPs []))"
    using rangeOrder_twoIPs_swapped by (simp add: loadBalanced_def)
  have l: "length [''127.0.0.1'', ''127.0.0.2''] \<le> 8" by simp
  from deterministic_up_to_target_order[OF o1 o2] o1 o2 l show ?thesis by blast
qed

text \<open>
  The claim as stated fails: the targets of the A record stand in the order in which the
  range over the addresses map visited them, and two orders give two results.
\<close>

theorem target_order_counterexample:
  "rangeOrder [''127.0.0.1'', ''127.0.0.2''] (Addresses (simple twoIPs)) \<and>
   rangeOrder [''127.0.0.2'', ''127.0.0.1''] (Addresses (simple twoIPs)) \<and>
   GenerateEndpoints recordedHash [''127.0.0.1'', ''127.0.0.2''] TestNamespacedName None
     ''test.example.com'' (simple twoIPs) =
     Inr [\<lparr>DNSName = ''test.example.com'', Targets = [''127.0.0.1'', ''127.0.0.2''],
           RecordType = ''A'', SetIdentifier = '''', RecordTTL = 60, ProviderSpecific = []\<rparr>] \<and>
   GenerateEndpoints recordedHash [''127.0.0.2'', ''127.0.0.1''] TestNamespacedName None
     ''test.example.com'' (simple twoIPs) =
     Inr [\<lparr>DNSName = ''test.example.com'', Targets = [''127.0.0.2'', ''127.0.0.1''],
           RecordType = ''A'', SetIdentifier = '''', RecordTTL = 60, ProviderSpecific = []\<rparr>] \<and>
   GenerateEndpoints recordedHash [''127.0.0.1'', ''127.0.0.2''] TestNamespacedName None
     ''test.example.com'' (simple twoIPs) \<noteq>
   GenerateEndpoints recordedHash [''127.0.0.2'', ''127.0.0.1''] TestNamespacedName None
     ''test.example.com'' (simple twoIPs)"
proof -
  have o1: "rangeOrder [''127.0.0.1'', ''127.0.0.2''] (Addresses (simple twoIPs))"
    using rangeOrder_twoIPs by (simp add: simple_def)
  have o2: "rangeOrder [''127.0.0.2'', ''127.0.0.1''] (Addresses (simple twoIPs))"
    using rangeOrder_twoIPs_swapped by (simp add: simple_def)
  have g1: "GenerateEndpoints recordedHash [''127.0.0.1'', ''127.0.0.2''] TestNamespacedName None
     ''test.example.com'' (simple twoIPs) =
     Inr [\<lparr>DNSName = ''test.example.com'', Targets = [''127.0.0.1'', ''127.0.0.2''],
           RecordType = ''A'', SetIdentifier = '''', RecordTTL = 60, ProviderSpecific = []\<rparr>]"
    by code_simp
  have g2: "GenerateEndpoints recordedHash [''127.0.0.2'', ''127.0.0.1''] TestNamespacedName None
     ''test.example.com'' (simple twoIPs) =
     Inr [\<lparr>DNSName = ''test.example.com'', Targets = [''127.0.0.2'', ''127.0.0.1''],
           RecordType = ''A'', SetIdentifier = '''', RecordTTL = 60, ProviderSpecific = []\<rparr>]"
    by code_simp
  have "GenerateEndpoints recordedHash [''127.0.0.1'', ''127.0.0.2''] TestNamespacedName None
     ''test.example.com'' (simple twoIPs) \<noteq>
   GenerateEndpoints recordedHash [''127.0.0.2'', ''127.0.0.1''] TestNamespacedName None
     ''test.example.com'' (simple twoIPs)"
    unfolding g1 g2 by simp
  with o1 o2 g1 g2 show ?thesis by blast
qed

section \<open>C2: a generation without geo label\<close>

text \<open>
  C2, as the code has it. For every load-balanced generation where the object labels do
  not contain the geo label \<open>kuadrant.io/lb-attribute-geo-code\<close>, the geo code is the
  default-geo sentinel "default". When the routing has at least one address, the result
  holds at the load-balancer name the CNAME with set identifier "default" (the geo code)
  that carries no provider-specific property; the second CNAME with set identifier
  "default" and \<open>geo-code="*"\<close> is emitted if and only if the routing's default geo code
  is itself "default", and nothing else stands at that name.
\<close>

theorem missing_geo_label:
  assumes "hostname \<noteq> ''''" and "Strategy r = LoadBalancedRoutingStrategy"
    and "Validate r = None"
    and "rangeOrder ord (Addresses r)" and "mapKeys (Addresses r) \<noteq> {}"
    and "ls LabelLBAttributeGeoCode = None"
  shows "getGeoFromLabel (Some ls) = DefaultGeo \<and> DefaultGeo = ''default'' \<and>
    (\<exists>endpoints.
     GenerateEndpoints h ord nn (Some ls) hostname r = Inr endpoints \<and>
     mset (filter (\<lambda>e. DNSName e = lbName hostname) endpoints) =
       {#\<lparr>DNSName = lbName hostname, Targets = [geoLbName (Some ls) hostname],
          RecordType = ''CNAME'', SetIdentifier = ''default'', RecordTTL = 300,
          ProviderSpecific = []\<rparr>#} +
       (if DefaultGeoCode r = ''default''
        then {#\<lparr>DNSName = lbName hostname, Targets = [geoLbName (Some ls) hostname],
                RecordType = ''CNAME'', SetIdentifier = ''default'', RecordTTL = 300,
                ProviderSpecific = [(''geo-code'', ''*'')]\<rparr>#}
        else {#}))"
proof -
  have geo: "getGeoFromLabel (Some ls) = DefaultGeo"
    using assms(6) by (simp add: getGeoFromLabel_def mapIndex_def)
  show ?thesis
    using lbName_records[OF hostTargets_nonempty[OF assms(4,5)], where h = h and nn = nn and hostname = hostname and objectLabels = "Some ls"]
    by (simp add: geo GenerateEndpoints_loadBalanced[OF assms(1-3)] geoCname_def
        defaultGeoCname_def DefaultGeo_def)
qed

text \<open>
  The generation without geo label of the package's tests (default geo code "IE"), and
  the same with the default geo code "default".
\<close>

theorem missing_geo_label_witness:
  "getGeoFromLabel noLabels = ''default'' \<and>
   (\<exists>endpoints.
      GenerateEndpoints recordedHash [''pat.the.cat''] TestNamespacedName noLabels
        ''test.example.com'' (loadBalanced oneHostname []) = Inr endpoints \<and>
      mset (filter (\<lambda>e. DNSName e = ''klb.test.example.com'') endpoints) =
        {#\<lparr>DNSName = ''klb.test.example.com'', Targets = [''default.klb.test.example.com''],
           RecordType = ''CNAME'', SetIdentifier = ''default'', RecordTTL = 300,
           ProviderSpecific = []\<rparr>#}) \<and>
   (\<exists>endpoints.
      GenerateEndpoints recordedHash [''pat.the.cat''] TestNamespacedName noLabels
        ''test.example.com'' ((loadBalanced oneHostname [])\<lparr>DefaultGeoCode := ''default''\<rparr>)
        = Inr endpoints \<and>
      mset (filter (\<lambda>e. DNSName e = ''klb.test.example.com'') endpoints) =
        {#\<lparr>DNSName = ''klb.test.example.com'', Targets = [''default.klb.test.example.com''],
           RecordType = ''CNAME'', SetIdentifier = ''default'', RecordTTL = 300,
           ProviderSpecific = []\<rparr>,
          \<lparr>DNSName = ''klb.test.example.com'', Targets = [''default.klb.test.example.com''],
           RecordType = ''CNAME'', SetIdentifier = ''default'', RecordTTL = 300,
           ProviderSpecific = [(''geo-code'', ''*'')]\<rparr>#})"
proof -
  have h1: "''test.example.com'' \<noteq> ''''" by simp
  have s: "Strategy (loadBalanced oneHostname []) = LoadBalancedRoutingStrategy"
    "Strategy ((loadBalanced oneHostname [])\<lparr>DefaultGeoCode := ''default''\<rparr>) = LoadBalancedRoutingStrategy"
    by (simp_all add: loadBalanced_def)
  have v: "Validate (loadBalanced oneHostname []) = None"
    "Validate ((loadBalanced oneHostname [])\<lparr>DefaultGeoCode := ''default''\<rparr>) = None"
    by (simp_all add: Validate_def loadBalanced_def oneHostname_def routing_consts isNil_def clusterID_def)
  have o: "rangeOrder [''pat.the.cat''] (Addresses (loadBalanced oneHostname []))"
    "rangeOrder [''pat.the.cat''] (Addresses ((loadBalanced oneHostname [])\<lparr>DefaultGeoCode := ''default''\<rparr>))"
    using rangeOrder_oneHostname by (simp_all add: loadBalanced_def)
  have k: "mapKeys (Addresses (loadBalanced oneHostname [])) \<noteq> {}"
    "mapKeys (Addresses ((loadBalanced oneHostname [])\<lparr>DefaultGeoCode := ''default''\<rparr>)) \<noteq> {}"
    by (simp_all add: loadBalanced_def oneHostname_def mapKeys_def)
  have l: "Map.empty LabelLBAttributeGeoCode = (None :: string option)" by simp
  have n: "lbName ''test.example.com'' = ''klb.test.example.com''"
    "geoLbName noLabels ''test.example.com'' = ''default.klb.test.example.com''"
    by code_simp+
  have d: "DefaultGeoCode (loadBalanced oneHostname []) \<noteq> ''default''"
    "DefaultGeoCode ((loadBalanced oneHostname [])\<lparr>DefaultGeoCode := ''default''\<rparr>) = ''default''"
    by (simp_all add: loadBalanced_def)
  show ?thesis
    using missing_geo_label[OF h1 s(1) v(1) o(1) k(1) l, of recordedHash TestNamespacedName]
      missing_geo_label[OF h1 s(2) v(2) o(2) k(2) l, of recordedHash TestNamespacedName]
    unfolding noLabels_def[symmetric] n DefaultGeo_def
    by (simp add: d add_mset_commute)
qed

text \<open>
  The claim as stated fails at the generation without geo label of the package's tests:
  the default geo code of the routing is "IE", and no record with set identifier
  "default" and \<open>geo-code="*"\<close> is emitted.
\<close>

theorem missing_geo_label_counterexample:
  "mapIndex noLabels LabelLBAttributeGeoCode = None \<and>
   GenerateEndpoints recordedHash [''pat.the.cat''] TestNamespacedName noLabels
     ''test.example.com'' (loadBalanced oneHostname []) =
   Inr [\<lparr>DNSName = ''default.klb.test.example.com'', Targets = [''pat.the.cat''],
          RecordType = ''CNAME'', SetIdentifier = ''pat.the.cat'', RecordTTL = 60,
          ProviderSpecific = [(''weight'', ''120'')]\<rparr>,
        \<lparr>DNSName = ''klb.test.example.com'', Targets = [''default.klb.test.example.com''],
          RecordType = ''CNAME'', SetIdentifier = ''default'', RecordTTL = 300,
          ProviderSpecific = []\<rparr>,
        \<lparr>DNSName = ''test.example.com'', Targets = [''klb.test.example.com''],
          RecordType = ''CNAME'', SetIdentifier = '''', RecordTTL = 300,
          ProviderSpecific = []\<rparr>] \<and>
   (case GenerateEndpoints recordedHash [''pat.the.cat''] TestNamespacedName noLabels
           ''test.example.com'' (loadBalanced oneHostname []) of
      Inl err \<Rightarrow> False
    | Inr endpoints \<Rightarrow>
        filter (\<lambda>e. (''geo-code'', ''*'') \<in> set (ProviderSpecific e)) endpoints = [])"
  by code_simp

section \<open>C3: the records at the load-balancer name\<close>

text \<open>
  C3, as the code has it. For every load-balanced generation whose routing has at least
  one address, the records at the load-balancer name are exactly: one CNAME with set
  identifier equal to the geo code, carrying \<open>geo-code\<close> equal to the geo code unless the
  geo code is the default-geo sentinel "default", in which case it carries no
  provider-specific property; and, if and only if the geo code equals the routing's
  default geo code, one more CNAME with set identifier "default" carrying \<open>geo-code="*"\<close>.
\<close>

theorem default_geo_duplication:
  assumes "hostname \<noteq> ''''" and "Strategy r = LoadBalancedRoutingStrategy"
    and "Validate r = None"
    and "rangeOrder ord (Addresses r)" and "mapKeys (Addresses r) \<noteq> {}"
  shows "\<exists>endpoints.
     GenerateEndpoints h ord nn (Some ls) hostname r = Inr endpoints \<and>
     mset (filter (\<lambda>e. DNSName e = lbName hostname) endpoints) =
       {#\<lparr>DNSName = lbName hostname, Targets = [geoLbName (Some ls) hostname],
          RecordType = ''CNAME'', SetIdentifier = getGeoFromLabel (Some ls), RecordTTL = 300,
          ProviderSpecific =
            (if getGeoFromLabel (Some ls) = DefaultGeo then []
             else [(''geo-code'', getGeoFromLabel (Some ls))])\<rparr>#} +
       (if getGeoFromLabel (Some ls) = DefaultGeoCode r
        then {#\<lparr>DNSName = lbName hostname, Targets = [geoLbName (Some ls) hostname],
                RecordType = ''CNAME'', SetIdentifier = ''default'', RecordTTL = 300,
                ProviderSpecific = [(''geo-code'', ''*'')]\<rparr>#}
        else {#})"
  using lbName_records[OF hostTargets_nonempty[OF assms(4,5)], where h = h and nn = nn and hostname = hostname and objectLabels = "Some ls"]
  by (simp add: GenerateEndpoints_loadBalanced[OF assms(1-3)] geoCname_def defaultGeoCname_def)

text \<open>The generations with matching geo ("IE") and with non-matching geo ("CAD") of the package's tests.\<close>

theorem default_geo_duplication_witness:
  "(\<exists>endpoints.
      GenerateEndpoints recordedHash [''127.0.0.1'', ''127.0.0.2''] TestNamespacedName ieLabels
        ''test.example.com'' (loadBalanced twoIPs []) = Inr endpoints \<and>
      mset (filter (\<lambda>e. DNSName e = ''klb.test.example.com'') endpoints) =
        {#\<lparr>DNSName = ''klb.test.example.com'', Targets = [''ie.klb.test.example.com''],
           RecordType = ''CNAME'', SetIdentifier = ''IE'', RecordTTL = 300,
           ProviderSpecific = [(''geo-code'', ''IE'')]\<rparr>,
          \<lparr>DNSName = ''klb.test.example.com'', Targets = [''ie.klb.test.example.com''],
           RecordType = ''CNAME'', SetIdentifier = ''default'', RecordTTL = 300,
           ProviderSpecific = [(''geo-code'', ''*'')]\<rparr>#}) \<and>
   (\<exists>endpoints.
      GenerateEndpoints recordedHash [''127.0.0.1'', ''127.0.0.2''] TestNamespacedName cadLabels
        ''test.example.com'' (loadBalanced twoIPs []) = Inr endpoints \<and>
      mset (filter (\<lambda>e. DNSName e = ''klb.test.example.com'') endpoints) =
        {#\<lparr>DNSName = ''klb.test.example.com'', Targets = [''cad.klb.test.example.com''],
           RecordType = ''CNAME'', SetIdentifier = ''CAD'', RecordTTL = 300,
           ProviderSpecific = [(''geo-code'', ''CAD'')]\<rparr>#})"
proof -
  have h1: "''test.example.com'' \<noteq> ''''" by simp
  have s: "Strategy (loadBalanced twoIPs []) = LoadBalancedRoutingStrategy"
    by (simp add: loadBalanced_def)
  note v = Validate_loadBalanced_twoIPs
  have o: "rangeOrder [''127.0.0.1'', ''127.0.0.2''] (Addresses (loadBalanced twoIPs []))"
    using rangeOrder_twoIPs by (simp add: loadBalanced_def)
  have k: "mapKeys (Addresses (loadBalanced twoIPs [])) \<noteq> {}"
    by (simp add: loadBalanced_def twoIPs_def mapKeys_def)
  have n: "lbName ''test.example.com'' = ''klb.test.example.com''"
    "geoLbName ieLabels ''test.example.com'' = ''ie.klb.test.example.com''"
    "geoLbName cadLabels ''test.example.com'' = ''cad.klb.test.example.com''"
    "getGeoFromLabel ieLabels = ''IE''" "getGeoFromLabel cadLabels = ''CAD''"
    by code_simp+
  have d: "DefaultGeoCode (loadBalanced twoIPs []) = ''IE''"
    by (simp add: loadBalanced_def)
  show ?thesis
    using default_geo_duplication[OF h1 s v o k, of recordedHash TestNamespacedName
        "[LabelLBAttributeGeoCode \<mapsto> ''IE'']"]
      default_geo_duplication[OF h1 s v o k, of recordedHash TestNamespacedName
        "[LabelLBAttributeGeoCode \<mapsto> ''CAD'']"]
    unfolding ieLabels_def[symmetric] cadLabels_def[symmetric] n d DefaultGeo_def
    by (simp add: add_mset_commute)
qed

text \<open>
  The claim as stated fails in two ways. Without geo label the geo code "default" differs
  from the default geo code "IE" and the one CNAME at the load-balancer name carries no
  \<open>geo-code\<close> property; and with the geo code equal to the default geo code but an empty
  addresses map no record is generated at all.
\<close>

theorem default_geo_duplication_counterexample:
  "getGeoFromLabel noLabels = ''default'' \<and>
   DefaultGeoCode (loadBalanced oneHostname []) = ''IE'' \<and>
   GenerateEndpoints recordedHash [''pat.the.cat''] TestNamespacedName noLabels
     ''*.example.com'' (loadBalanced oneHostname []) =
   Inr [\<lparr>DNSName = ''*.example.com'', Targets = [''klb.example.com''],
          RecordType = ''CNAME'', SetIdentifier = '''', RecordTTL = 300,
          ProviderSpecific = []\<rparr>,
        \<lparr>DNSName = ''default.klb.example.com'', Targets = [''pat.the.cat''],
          RecordType = ''CNAME'', SetIdentifier = ''pat.the.cat'', RecordTTL = 60,
          ProviderSpecific = [(''weight'', ''120'')]\<rparr>,
        \<lparr>DNSName = ''klb.example.com'', Targets = [''default.klb.example.com''],
          RecordType = ''CNAME'', SetIdentifier = ''default'', RecordTTL = 300,
          ProviderSpecific = []\<rparr>] \<and>
   getGeoFromLabel ieLabels = DefaultGeoCode (loadBalanced (Some Map.empty) []) \<and>
   Validate (loadBalanced (Some Map.empty) []) = None \<and>
   GenerateEndpoints recordedHash [] TestNamespacedName ieLabels
     ''test.example.com'' (loadBalanced (Some Map.empty) []) = Inr []"
  by code_simp

section \<open>C4: wildcard hostnames\<close>

text \<open>
  C4, as the code has it. For every hostname \<open>"*." + rest\<close> whose \<open>rest\<close> contains no
  further \<open>"*."\<close>, the load-balancer name is \<open>"klb." + rest\<close> lower-cased; and for every
  valid load-balanced routing with at least one address, the CNAME that
  \<open>getLoadBalancedEndpoints\<close> emits last keeps the original wildcard hostname as its DNS
  name, points to the load-balancer name, and is part of the result.
\<close>

theorem wildcard_normalization:
  assumes "\<not> Contains rest ''*.''"
  shows "lbName (''*.'' @ rest) = ''klb.'' @ ToLower rest \<and>
    (Strategy r = LoadBalancedRoutingStrategy \<and> Validate r = None \<and>
     rangeOrder ord (Addresses r) \<and> mapKeys (Addresses r) \<noteq> {}
       \<longrightarrow> last (getLoadBalancedEndpoints h ord nn (Some ls) r (''*.'' @ rest)) =
             \<lparr>DNSName = ''*.'' @ rest, Targets = [''klb.'' @ ToLower rest], RecordType = ''CNAME'',
              SetIdentifier = '''', RecordTTL = 300, ProviderSpecific = []\<rparr> \<and>
           (\<exists>endpoints.
              GenerateEndpoints h ord nn (Some ls) (''*.'' @ rest) r = Inr endpoints \<and>
              \<lparr>DNSName = ''*.'' @ rest, Targets = [''klb.'' @ ToLower rest], RecordType = ''CNAME'',
               SetIdentifier = '''', RecordTTL = 300, ProviderSpecific = []\<rparr> \<in> set endpoints))"
proof -
  have lb: "lbName (''*.'' @ rest) = ''klb.'' @ ToLower rest"
    by (simp only: lbName_eq cnameHost_wildcard[OF assms])
  have top: "hostCname (''*.'' @ rest) =
      \<lparr>DNSName = ''*.'' @ rest, Targets = [''klb.'' @ ToLower rest], RecordType = ''CNAME'',
       SetIdentifier = '''', RecordTTL = 300, ProviderSpecific = []\<rparr>"
    by (simp only: hostCname_def lb)
  have "last (getLoadBalancedEndpoints h ord nn (Some ls) r (''*.'' @ rest)) = hostCname (''*.'' @ rest) \<and>
        (\<exists>endpoints.
              GenerateEndpoints h ord nn (Some ls) (''*.'' @ rest) r = Inr endpoints \<and>
              hostCname (''*.'' @ rest) \<in> set endpoints)"
    if "Strategy r = LoadBalancedRoutingStrategy" "Validate r = None"
      "rangeOrder ord (Addresses r)" "mapKeys (Addresses r) \<noteq> {}"
  proof -
    have ne: "hostTargets h ord nn r (''*.'' @ rest) \<noteq> []"
      by (rule hostTargets_nonempty[OF that(3,4)])
    have "GenerateEndpoints h ord nn (Some ls) (''*.'' @ rest) r =
        Inr (sortSlice (getLoadBalancedEndpoints h ord nn (Some ls) r (''*.'' @ rest)))"
      by (rule GenerateEndpoints_loadBalanced[OF _ that(1,2)]) simp
    moreover have "hostCname (''*.'' @ rest) \<in>
        set (sortSlice (getLoadBalancedEndpoints h ord nn (Some ls) r (''*.'' @ rest)))"
      using ne by (simp add: set_getLoadBalancedEndpoints)
    ultimately show ?thesis
      using last_getLoadBalancedEndpoints[OF ne] by blast
  qed
  with lb show ?thesis unfolding top by blast
qed

theorem wildcard_normalization_witness:
  "\<not> Contains ''example.com'' ''*.'' \<and>
   lbName ''*.example.com'' = ''klb.example.com'' \<and>
   last (getLoadBalancedEndpoints recordedHash [''127.0.0.1'', ''127.0.0.2''] TestNamespacedName
           ieLabels (loadBalanced twoIPs []) ''*.example.com'') =
     \<lparr>DNSName = ''*.example.com'', Targets = [''klb.example.com''], RecordType = ''CNAME'',
      SetIdentifier = '''', RecordTTL = 300, ProviderSpecific = []\<rparr> \<and>
   (\<exists>endpoints.
      GenerateEndpoints recordedHash [''127.0.0.1'', ''127.0.0.2''] TestNamespacedName ieLabels
        ''*.example.com'' (loadBalanced twoIPs []) = Inr endpoints \<and>
      \<lparr>DNSName = ''*.example.com'', Targets = [''klb.example.com''], RecordType = ''CNAME'',
       SetIdentifier = '''', RecordTTL = 300, ProviderSpecific = []\<rparr> \<in> set endpoints)"
proof -
  have c: "\<not> Contains ''example.com'' ''*.''" by code_simp
  have s: "Strategy (loadBalanced twoIPs []) = LoadBalancedRoutingStrategy"
    by (simp add: loadBalanced_def)
  note v = Validate_loadBalanced_twoIPs
  have o: "rangeOrder [''127.0.0.1'', ''127.0.0.2''] (Addresses (loadBalanced twoIPs []))"
    using rangeOrder_twoIPs by (simp add: loadBalanced_def)
  have k: "mapKeys (Addresses (loadBalanced twoIPs [])) \<noteq> {}"
    by (simp add: loadBalanced_def twoIPs_def mapKeys_def)
  have l: "ToLower ''example.com'' = ''example.com''" by code_simp
  show ?thesis
    using wildcard_normalization[OF c, where r = "loadBalanced twoIPs []"
        and ord = "[''127.0.0.1'', ''127.0.0.2'']" and h = recordedHash and nn = TestNamespacedName
        and ls = "[LabelLBAttributeGeoCode \<mapsto> ''IE'']"] c s v o k
    unfolding ieLabels_def[symmetric] l
    by simp
qed

text \<open>
  The claim as stated fails for a hostname with a second \<open>"*."\<close>: the code removes every
  occurrence, not only the leading one.
\<close>

theorem wildcard_normalization_counterexample:
  "isWildCardHost ''*.a.*.example.com'' \<and>
   cnameHost ''*.a.*.example.com'' = ''a.example.com'' \<and>
   lbName ''*.a.*.example.com'' = ''klb.a.example.com'' \<and>
   ''klb.'' @ ToLower (drop 2 ''*.a.*.example.com'') = ''klb.a.*.example.com'' \<and>
   lbName ''*.a.*.example.com'' \<noteq> ''klb.'' @ ToLower (drop 2 ''*.a.*.example.com'') \<and>
   GenerateEndpoints recordedHash [''pat.the.cat''] TestNamespacedName ieLabels
     ''*.a.*.example.com'' (loadBalanced oneHostname []) =
   Inr [\<lparr>DNSName = ''*.a.*.example.com'', Targets = [''klb.a.example.com''],
          RecordType = ''CNAME'', SetIdentifier = '''', RecordTTL = 300,
          ProviderSpecific = []\<rparr>,
        \<lparr>DNSName = ''ie.klb.a.example.com'', Targets = [''pat.the.cat''],
          RecordType = ''CNAME'', SetIdentifier = ''pat.the.cat'', RecordTTL = 60,
          ProviderSpecific = [(''weight'', ''120'')]\<rparr>,
        \<lparr>DNSName = ''klb.a.example.com'', Targets = [''ie.klb.a.example.com''],
          RecordType = ''CNAME'', SetIdentifier = ''IE'', RecordTTL = 300,
          ProviderSpecific = [(''geo-code'', ''IE'')]\<rparr>,
        \<lparr>DNSName = ''klb.a.example.com'', Targets = [''ie.klb.a.example.com''],
          RecordType = ''CNAME'', SetIdentifier = ''default'', RecordTTL = 300,
          ProviderSpecific = [(''geo-code'', ''*'')]\<rparr>]"
  by code_simp

section \<open>C5: load-balanced generation needs the object's labels\<close>

text \<open>
  C5, as the code has it: for every routing with \<open>Strategy == LoadBalanced\<close> that passes
  \<open>Validate\<close>, every non-empty hostname and \<open>objectLabels == nil\<close>, \<open>GenerateEndpoints\<close>
  fails with the error "object labels required" and returns no endpoints. (\<open>Validate\<close>
  runs before the strategy switch, so an invalid routing fails with its own error.)
\<close>

theorem nil_labels_rejected:
  assumes "hostname \<noteq> ''''"
    and "Strategy routing = LoadBalancedRoutingStrategy"
    and "Validate routing = None"
  shows "GenerateEndpoints h ord nn None hostname routing = Inl ObjectLabelsRequired
       \<and> Error ObjectLabelsRequired = ''object labels required''"
  using assms by (simp add: GenerateEndpoints_def routing_consts isNil_def)

theorem nil_labels_rejected_witness:
  "''test.example.com'' \<noteq> '''' \<and>
   Strategy (loadBalanced twoIPs []) = LoadBalancedRoutingStrategy \<and>
   Validate (loadBalanced twoIPs []) = None \<and>
   GenerateEndpoints recordedHash [''127.0.0.1'', ''127.0.0.2''] TestNamespacedName None
     ''test.example.com'' (loadBalanced twoIPs []) = Inl ObjectLabelsRequired"
proof -
  have h1: "''test.example.com'' \<noteq> ''''" by simp
  have h2: "Strategy (loadBalanced twoIPs []) = LoadBalancedRoutingStrategy"
    by (simp add: loadBalanced_def)
  note h3 = Validate_loadBalanced_twoIPs
  from nil_labels_rejected[OF h1 h2 h3] h1 h2 h3 show ?thesis by blast
qed

text \<open>
  The claim as stated fails for a load-balanced routing that \<open>Validate\<close> rejects: with nil
  addresses and nil labels the error is "must provide addresses".
\<close>

theorem nil_labels_invalid_routing_counterexample:
  "Strategy (loadBalanced None []) = LoadBalancedRoutingStrategy \<and>
   GenerateEndpoints recordedHash [] TestNamespacedName None ''test.example.com''
     (loadBalanced None []) = Inl MustProvideAddresses \<and>
   GenerateEndpoints recordedHash [] TestNamespacedName None ''test.example.com''
     (loadBalanced None []) \<noteq> Inl ObjectLabelsRequired"
  by (simp add: GenerateEndpoints_def Validate_def loadBalanced_def routing_consts isNil_def)

section \<open>C6: the endpoints of the simple strategy\<close>

text \<open>
  C6: for every simple-strategy generation with non-empty hostname, the addresses map is
  partitioned into the IP-typed entries (kind "IPAddress") and the hostname-typed ones
  (any other kind), and the result is at most one A record at the hostname whose targets
  are exactly the IP-typed addresses, with TTL 60 and empty set identifier, followed by at
  most one CNAME record at the hostname whose targets are exactly the hostname-typed
  addresses, with TTL 60; a group that is empty gives no record, and no record carries a
  provider-specific property. The targets stand in the order the range over the map
  visited them.
\<close>

theorem simple_endpoints:
  fixes r :: Routing and ord :: "string list"
  defines "ipValues \<equiv> fst (targetsFromAddresses ord (Addresses r))"
    and "hostValues \<equiv> snd (targetsFromAddresses ord (Addresses r))"
  assumes "hostname \<noteq> ''''" and "Strategy r = SimpleRoutingStrategy"
    and "rangeOrder ord (Addresses r)"
  shows "set ipValues = {a. mapIndex (Addresses r) a = Some ''IPAddress''} \<and>
         set hostValues = {a. \<exists>kind. mapIndex (Addresses r) a = Some kind \<and> kind \<noteq> ''IPAddress''} \<and>
         distinct ipValues \<and> distinct hostValues \<and>
         set ipValues \<union> set hostValues = mapKeys (Addresses r) \<and>
         set ipValues \<inter> set hostValues = {} \<and>
         GenerateEndpoints h ord nn objectLabels hostname r =
           Inr ((if ipValues = [] then []
                 else [\<lparr>DNSName = hostname, Targets = ipValues, RecordType = ''A'',
                        SetIdentifier = '''', RecordTTL = 60, ProviderSpecific = []\<rparr>]) @
                (if hostValues = [] then []
                 else [\<lparr>DNSName = hostname, Targets = hostValues, RecordType = ''CNAME'',
                        SetIdentifier = '''', RecordTTL = 60, ProviderSpecific = []\<rparr>]))"
proof -
  note sets = targets_sets[OF assms(5)]
  have part: "set ipValues \<union> set hostValues = mapKeys (Addresses r)"
    unfolding ipValues_def hostValues_def sets
    by (auto simp: mapKeys_def mapIndex_def split: option.splits)
  have disj: "set ipValues \<inter> set hostValues = {}"
    unfolding ipValues_def hostValues_def sets by auto
  have gen: "GenerateEndpoints h ord nn objectLabels hostname r =
           Inr ((if ipValues = [] then []
                 else [\<lparr>DNSName = hostname, Targets = ipValues, RecordType = ''A'',
                        SetIdentifier = '''', RecordTTL = 60, ProviderSpecific = []\<rparr>]) @
                (if hostValues = [] then []
                 else [\<lparr>DNSName = hostname, Targets = hostValues, RecordType = ''CNAME'',
                        SetIdentifier = '''', RecordTTL = 60, ProviderSpecific = []\<rparr>]))"
    using assms(3,4)
    by (simp add: GenerateEndpoints_simple getSimpleEndpoints_eq ipValues_def hostValues_def
        createEndpoint_def ARecordType_def CNAMERecordType_def DefaultTTL_def
        sortSlice_same_key getSetID_def)
  from sets part disj gen show ?thesis
    by (simp add: ipValues_def hostValues_def)
qed

theorem simple_endpoints_witness:
  "set [''127.0.0.1'', ''127.0.0.2''] = {a. mapIndex twoIPs a = Some ''IPAddress''} \<and>
   GenerateEndpoints recordedHash [''127.0.0.1'', ''127.0.0.2''] TestNamespacedName None
     ''test.example.com'' (simple twoIPs) =
     Inr [\<lparr>DNSName = ''test.example.com'', Targets = [''127.0.0.1'', ''127.0.0.2''],
           RecordType = ''A'', SetIdentifier = '''', RecordTTL = 60, ProviderSpecific = []\<rparr>]"
proof -
  have h1: "''test.example.com'' \<noteq> ''''" by simp
  have h2: "Strategy (simple twoIPs) = SimpleRoutingStrategy" by (simp add: simple_def)
  have h3: "rangeOrder [''127.0.0.1'', ''127.0.0.2''] (Addresses (simple twoIPs))"
    using rangeOrder_twoIPs by (simp add: simple_def)
  have t: "targetsFromAddresses [''127.0.0.1'', ''127.0.0.2''] twoIPs = ([''127.0.0.1'', ''127.0.0.2''], [])"
    by code_simp
  have a: "Addresses (simple twoIPs) = twoIPs" by (simp add: simple_def)
  show ?thesis
    using simple_endpoints[OF h1 h2 h3, of recordedHash TestNamespacedName None]
    unfolding a t by simp
qed

section \<open>C7: the result is sorted\<close>

text \<open>
  C7: for every successful call of \<open>GenerateEndpoints\<close> (either strategy), the returned
  list is sorted ascending by the concatenation \<open>dnsName + setIdentifier\<close>.
\<close>

theorem result_sorted_by_set_id:
  assumes "GenerateEndpoints h ord nn objectLabels hostname routing = Inr endpoints"
  shows "sorted (map getSetID endpoints)"
  using assms
  by (auto simp: GenerateEndpoints_def sortSlice_sort_key split: if_splits option.splits)

lemma gen_ie:
  "GenerateEndpoints recordedHash [''127.0.0.1'', ''127.0.0.2''] TestNamespacedName ieLabels
     ''test.example.com'' (loadBalanced twoIPs []) =
   Inr [\<lparr>DNSName = ''2q5hyv-a8xcra.klb.test.example.com'',
         Targets = [''127.0.0.1'', ''127.0.0.2''], RecordType = ''A'',
         SetIdentifier = [], RecordTTL = 60, ProviderSpecific = []\<rparr>,
      \<lparr>DNSName = ''ie.klb.test.example.com'',
         Targets = [''2q5hyv-a8xcra.klb.test.example.com''],
         RecordType = ''CNAME'',
         SetIdentifier = ''2q5hyv-a8xcra.klb.test.example.com'',
         RecordTTL = 60, ProviderSpecific = [(''weight'', ''120'')]\<rparr>,
      \<lparr>DNSName = ''klb.test.example.com'',
         Targets = [''ie.klb.test.example.com''], RecordType = ''CNAME'',
         SetIdentifier = ''IE'', RecordTTL = 300,
         ProviderSpecific = [(''geo-code'', ''IE'')]\<rparr>,
      \<lparr>DNSName = ''klb.test.example.com'',
         Targets = [''ie.klb.test.example.com''], RecordType = ''CNAME'',
         SetIdentifier = ''default'', RecordTTL = 300,
         ProviderSpecific = [(''geo-code'', ''*'')]\<rparr>,
      \<lparr>DNSName = ''test.example.com'', Targets = [''klb.test.example.com''],
         RecordType = ''CNAME'', SetIdentifier = [], RecordTTL = 300,
         ProviderSpecific = []\<rparr>]"
  by code_simp

theorem result_sorted_by_set_id_witness:
  "GenerateEndpoints recordedHash [''127.0.0.1'', ''127.0.0.2''] TestNamespacedName ieLabels
     ''test.example.com'' (loadBalanced twoIPs []) =
   Inr [\<lparr>DNSName = ''2q5hyv-a8xcra.klb.test.example.com'',
         Targets = [''127.0.0.1'', ''127.0.0.2''], RecordType = ''A'',
         SetIdentifier = [], RecordTTL = 60, ProviderSpecific = []\<rparr>,
      \<lparr>DNSName = ''ie.klb.test.example.com'',
         Targets = [''2q5hyv-a8xcra.klb.test.example.com''],
         RecordType = ''CNAME'',
         SetIdentifier = ''2q5hyv-a8xcra.klb.test.example.com'',
         RecordTTL = 60, ProviderSpecific = [(''weight'', ''120'')]\<rparr>,
      \<lparr>DNSName = ''klb.test.example.com'',
         Targets = [''ie.klb.test.example.com''], RecordType = ''CNAME'',
         SetIdentifier = ''IE'', RecordTTL = 300,
         ProviderSpecific = [(''geo-code'', ''IE'')]\<rparr>,
      \<lparr>DNSName = ''klb.test.example.com'',
         Targets = [''ie.klb.test.example.com''], RecordType = ''CNAME'',
         SetIdentifier = ''default'', RecordTTL = 300,
         ProviderSpecific = [(''geo-code'', ''*'')]\<rparr>,
      \<lparr>DNSName = ''test.example.com'', Targets = [''klb.test.example.com''],
         RecordType = ''CNAME'', SetIdentifier = [], RecordTTL = 300,
         ProviderSpecific = []\<rparr>] \<and>
   sorted [''2q5hyv-a8xcra.klb.test.example.com'',
     ''ie.klb.test.example.com2q5hyv-a8xcra.klb.test.example.com'',
     ''klb.test.example.comIE'', ''klb.test.example.comdefault'', ''test.example.com'']"
  using result_sorted_by_set_id[OF gen_ie] gen_ie by (simp add: getSetID_def)

section \<open>C8: what Validate rejects\<close>

text \<open>
  C8, as the code has it. \<open>Validate\<close> accepts every simple routing; for any other
  routing its checks run in a fixed order and the first that fails gives the error:
  an unset strategy or nil addresses fail with "must provide addresses"; then an empty
  cluster ID fails with "cluster ID is required"; then a zero default weight with "default
  weight is required"; then an empty default geo code with "default geocode is required";
  then the first custom weight that has weight zero fails with "custom weight cannot be
  zero", and the first whose selector has nil match labels and nil match expressions with
  "custom weight must define non-empty selector" (the custom weights before it having a
  weight and a non-empty selector). A routing with all four fields set whose custom
  weights all have a weight and a non-empty selector is accepted. \<open>GenerateEndpoints\<close>
  with a non-empty hostname returns the error of \<open>Validate\<close> unchanged.
\<close>

theorem validate_rejections:
  "(Strategy r \<noteq> SimpleRoutingStrategy \<and> (Strategy r = '''' \<or> isNil (Addresses r))
      \<longrightarrow> Validate r = Some MustProvideAddresses) \<and>
   (Strategy r \<noteq> SimpleRoutingStrategy \<and> Strategy r \<noteq> '''' \<and> \<not> isNil (Addresses r) \<and>
    ClusterID r = ''''
      \<longrightarrow> Validate r = Some ClusterIDRequired) \<and>
   (Strategy r \<noteq> SimpleRoutingStrategy \<and> Strategy r \<noteq> '''' \<and> \<not> isNil (Addresses r) \<and>
    ClusterID r \<noteq> '''' \<and> DefaultWeight r = 0
      \<longrightarrow> Validate r = Some DefaultWeightRequired) \<and>
   (Strategy r \<noteq> SimpleRoutingStrategy \<and> Strategy r \<noteq> '''' \<and> \<not> isNil (Addresses r) \<and>
    ClusterID r \<noteq> '''' \<and> DefaultWeight r \<noteq> 0 \<and> DefaultGeoCode r = ''''
      \<longrightarrow> Validate r = Some DefaultGeoCodeRequired) \<and>
   (requiredFieldsSet r \<and> CustomWeights r = pre @ cw # post \<and> list_all wellFormedWeight pre \<and>
    Weight cw = 0
      \<longrightarrow> Validate r = Some CustomWeightZero) \<and>
   (requiredFieldsSet r \<and> CustomWeights r = pre @ cw # post \<and> list_all wellFormedWeight pre \<and>
    Weight cw \<noteq> 0 \<and> isNil (MatchLabels (Selector cw)) \<and> isNil (MatchExpressions (Selector cw))
      \<longrightarrow> Validate r = Some CustomWeightEmptySelector) \<and>
   (requiredFieldsSet r \<and> list_all wellFormedWeight (CustomWeights r)
      \<longrightarrow> Validate r = None) \<and>
   (hostname \<noteq> '''' \<and> Validate r = Some err
      \<longrightarrow> GenerateEndpoints h ord nn objectLabels hostname r = Inl err) \<and>
   Error MustProvideAddresses = ''must provide addresses'' \<and>
   Error ClusterIDRequired = ''cluster ID is required'' \<and>
   Error DefaultWeightRequired = ''default weight is required'' \<and>
   Error DefaultGeoCodeRequired = ''default geocode is required'' \<and>
   Error CustomWeightZero = ''custom weight cannot be zero'' \<and>
   Error CustomWeightEmptySelector = ''custom weight must define non-empty selector''"
proof -
  have zero: "validateCustomWeights (pre @ cw # post) = Some CustomWeightZero"
    if "list_all wellFormedWeight pre" "Weight cw = 0"
    using that by (simp add: validateCustomWeights_wellFormed)
  have empty: "validateCustomWeights (pre @ cw # post) = Some CustomWeightEmptySelector"
    if "list_all wellFormedWeight pre" "Weight cw \<noteq> 0"
      "isNil (MatchLabels (Selector cw))" "isNil (MatchExpressions (Selector cw))"
    using that
    by (simp add: validateCustomWeights_wellFormed isNil_def lenOf_def split: option.splits)
  have ok: "validateCustomWeights (CustomWeights r) = None"
    if "list_all wellFormedWeight (CustomWeights r)"
    using validateCustomWeights_wellFormed[OF that, of "[]"] by simp
  show ?thesis
    using zero empty ok
    by (simp add: Validate_def requiredFieldsSet_def GenerateEndpoints_def)
qed

text \<open>Each rejection, the acceptance and the surfaced error at inputs of the package's tests.\<close>

theorem validate_rejections_witness:
  "Validate (loadBalanced None []) = Some MustProvideAddresses \<and>
   Validate ((loadBalanced twoIPs [])\<lparr>Strategy := ''''\<rparr>) = Some MustProvideAddresses \<and>
   Validate ((loadBalanced twoIPs [])\<lparr>ClusterID := ''''\<rparr>) = Some ClusterIDRequired \<and>
   Validate ((loadBalanced twoIPs [])\<lparr>DefaultWeight := 0\<rparr>) = Some DefaultWeightRequired \<and>
   Validate ((loadBalanced twoIPs [])\<lparr>DefaultGeoCode := ''''\<rparr>) = Some DefaultGeoCodeRequired \<and>
   Validate (loadBalanced twoIPs [\<lparr>Weight = 0, Selector = fooSelector\<rparr>]) = Some CustomWeightZero \<and>
   Validate (loadBalanced twoIPs [\<lparr>Weight = 100, Selector = emptySelector\<rparr>])
     = Some CustomWeightEmptySelector \<and>
   Validate (loadBalanced twoIPs [\<lparr>Weight = 100, Selector = fooSelector\<rparr>]) = None \<and>
   GenerateEndpoints recordedHash [''127.0.0.1'', ''127.0.0.2''] TestNamespacedName ieLabels
     ''test.example.com'' ((loadBalanced twoIPs [])\<lparr>ClusterID := ''''\<rparr>) = Inl ClusterIDRequired"
proof -
  note defs = loadBalanced_def twoIPs_def routing_consts isNil_def clusterID_def
    requiredFieldsSet_def wellFormedWeight_def fooSelector_def emptySelector_def lenOf_def
  have a: "Validate (loadBalanced None []) = Some MustProvideAddresses"
    using validate_rejections[of "loadBalanced None []"] by (simp add: defs)
  have b: "Validate ((loadBalanced twoIPs [])\<lparr>Strategy := ''''\<rparr>) = Some MustProvideAddresses"
    using validate_rejections[of "(loadBalanced twoIPs [])\<lparr>Strategy := ''''\<rparr>"]
    by (simp add: defs)
  have c: "Validate ((loadBalanced twoIPs [])\<lparr>ClusterID := ''''\<rparr>) = Some ClusterIDRequired"
    using validate_rejections[of "(loadBalanced twoIPs [])\<lparr>ClusterID := ''''\<rparr>"]
    by (simp add: defs)
  have d: "Validate ((loadBalanced twoIPs [])\<lparr>DefaultWeight := 0\<rparr>) = Some DefaultWeightRequired"
    using validate_rejections[of "(loadBalanced twoIPs [])\<lparr>DefaultWeight := 0\<rparr>"]
    by (simp add: defs)
  have e: "Validate ((loadBalanced twoIPs [])\<lparr>DefaultGeoCode := ''''\<rparr>) = Some DefaultGeoCodeRequired"
    using validate_rejections[of "(loadBalanced twoIPs [])\<lparr>DefaultGeoCode := ''''\<rparr>"]
    by (simp add: defs)
  have f: "Validate (loadBalanced twoIPs [\<lparr>Weight = 0, Selector = fooSelector\<rparr>]) = Some CustomWeightZero"
    using validate_rejections[of "loadBalanced twoIPs [\<lparr>Weight = 0, Selector = fooSelector\<rparr>]"
        "[]" "\<lparr>Weight = 0, Selector = fooSelector\<rparr>" "[]"]
    by (simp add: defs)
  have g: "Validate (loadBalanced twoIPs [\<lparr>Weight = 100, Selector = emptySelector\<rparr>])
     = Some CustomWeightEmptySelector"
    using validate_rejections[of "loadBalanced twoIPs [\<lparr>Weight = 100, Selector = emptySelector\<rparr>]"
        "[]" "\<lparr>Weight = 100, Selector = emptySelector\<rparr>" "[]"]
    by (simp add: defs)
  have h: "Validate (loadBalanced twoIPs [\<lparr>Weight = 100, Selector = fooSelector\<rparr>]) = None"
    using validate_rejections[of "loadBalanced twoIPs [\<lparr>Weight = 100, Selector = fooSelector\<rparr>]"]
    by (simp add: defs)
  have i: "GenerateEndpoints recordedHash [''127.0.0.1'', ''127.0.0.2''] TestNamespacedName ieLabels
     ''test.example.com'' ((loadBalanced twoIPs [])\<lparr>ClusterID := ''''\<rparr>) = Inl ClusterIDRequired"
    using validate_rejections[of "(loadBalanced twoIPs [])\<lparr>ClusterID := ''''\<rparr>" _ _ _
        "''test.example.com''" ClusterIDRequired] c
    by simp
  from a b c d e f g h i show ?thesis by blast
qed

text \<open>
  The claim as stated fails in two ways: a simple routing with nil addresses is accepted,
  and a load-balanced routing with an empty cluster ID and nil addresses fails with "must
  provide addresses", the earlier check.
\<close>

theorem validate_rejections_counterexample:
  "isNil (Addresses (simple None)) \<and> Validate (simple None) = None \<and>
   Strategy ((loadBalanced None [])\<lparr>ClusterID := ''''\<rparr>) = LoadBalancedRoutingStrategy \<and>
   ClusterID ((loadBalanced None [])\<lparr>ClusterID := ''''\<rparr>) = '''' \<and>
   Validate ((loadBalanced None [])\<lparr>ClusterID := ''''\<rparr>) = Some MustProvideAddresses \<and>
   Error MustProvideAddresses \<noteq> ''cluster ID is required''"
  by (simp add: Validate_def simple_def loadBalanced_def routing_consts isNil_def)

section \<open>C9: the weight of the geo-tier records\<close>

text \<open>
  C9, as the code has it. In a load-balanced generation every target of the geo tier has
  its CNAME in the result, carrying the provider-specific property "weight" with the
  decimal text of \<open>getWeight\<close>, and no record carries another weight. \<open>getWeight\<close>
  walks the custom weights in declaration order: it is the weight of the first custom
  weight whose selector matches the labels when every selector before it converts; it is
  the default weight when every selector converts and none matches, and also when a
  selector that does not convert is reached before any match. With default weight 120
  and one custom weight 100 selecting the label \<open>kuadrant.io/my-custom-weight-attr=FOO\<close>,
  labels with that entry give 100 and labels without it give 120.
\<close>

theorem weight_of_first_match:
  "(hostname \<noteq> '''' \<and> Strategy r = LoadBalancedRoutingStrategy \<and> Validate r = None
      \<longrightarrow> (\<exists>endpoints.
            GenerateEndpoints h ord nn (Some ls) hostname r = Inr endpoints \<and>
            (\<forall>target \<in> set (hostTargets h ord nn r hostname).
               \<lparr>DNSName = geoLbName (Some ls) hostname, Targets = [target], RecordType = ''CNAME'',
                SetIdentifier = target, RecordTTL = 60,
                ProviderSpecific = [(''weight'', Itoa (getWeight r (Some ls)))]\<rparr> \<in> set endpoints) \<and>
            (\<forall>e \<in> set endpoints. \<forall>v. (''weight'', v) \<in> set (ProviderSpecific e)
               \<longrightarrow> v = Itoa (getWeight r (Some ls))))) \<and>
   (CustomWeights r = pre @ cw # post \<and>
    list_all (\<lambda>c. selectorPasses (Selector c) objectLabels) pre \<and>
    selectorMatches (Selector cw) objectLabels
      \<longrightarrow> getWeight r objectLabels = Weight cw) \<and>
   (list_all (\<lambda>c. selectorPasses (Selector c) objectLabels) (CustomWeights r)
      \<longrightarrow> getWeight r objectLabels = DefaultWeight r) \<and>
   (CustomWeights r = pre @ cw # post \<and>
    list_all (\<lambda>c. selectorPasses (Selector c) objectLabels) pre \<and>
    selectorInvalid (Selector cw)
      \<longrightarrow> getWeight r objectLabels = DefaultWeight r) \<and>
   (mapIndex objectLabels ''kuadrant.io/my-custom-weight-attr'' = Some ''FOO''
      \<longrightarrow> getWeight (loadBalanced addresses [fooWeight]) objectLabels = 100) \<and>
   (mapIndex objectLabels ''kuadrant.io/my-custom-weight-attr'' \<noteq> Some ''FOO''
      \<longrightarrow> getWeight (loadBalanced addresses [fooWeight]) objectLabels = 120)"
proof -
  have tier: "\<exists>endpoints.
            GenerateEndpoints h ord nn (Some ls) hostname r = Inr endpoints \<and>
            (\<forall>target \<in> set (hostTargets h ord nn r hostname).
               \<lparr>DNSName = geoLbName (Some ls) hostname, Targets = [target], RecordType = ''CNAME'',
                SetIdentifier = target, RecordTTL = 60,
                ProviderSpecific = [(''weight'', Itoa (getWeight r (Some ls)))]\<rparr> \<in> set endpoints) \<and>
            (\<forall>e \<in> set endpoints. \<forall>v. (''weight'', v) \<in> set (ProviderSpecific e)
               \<longrightarrow> v = Itoa (getWeight r (Some ls)))"
    if "hostname \<noteq> ''''" "Strategy r = LoadBalancedRoutingStrategy" "Validate r = None"
  proof (intro exI conjI)
    show "GenerateEndpoints h ord nn (Some ls) hostname r =
        Inr (sortSlice (getLoadBalancedEndpoints h ord nn (Some ls) r hostname))"
      by (rule GenerateEndpoints_loadBalanced[OF that])
    show "\<forall>target \<in> set (hostTargets h ord nn r hostname).
               \<lparr>DNSName = geoLbName (Some ls) hostname, Targets = [target], RecordType = ''CNAME'',
                SetIdentifier = target, RecordTTL = 60,
                ProviderSpecific = [(''weight'', Itoa (getWeight r (Some ls)))]\<rparr>
               \<in> set (sortSlice (getLoadBalancedEndpoints h ord nn (Some ls) r hostname))"
      by (auto simp: set_getLoadBalancedEndpoints weightedCname_def)
    show "\<forall>e \<in> set (sortSlice (getLoadBalancedEndpoints h ord nn (Some ls) r hostname)).
            \<forall>v. (''weight'', v) \<in> set (ProviderSpecific e) \<longrightarrow> v = Itoa (getWeight r (Some ls))"
      by (auto simp: set_getLoadBalancedEndpoints weightedCname_def clusterEndpoints_def
            geoCname_def hostCname_def defaultGeoCname_def split: if_splits)
  qed
  have first: "getWeight r objectLabels = Weight cw"
    if "CustomWeights r = pre @ cw # post"
      "list_all (\<lambda>c. selectorPasses (Selector c) objectLabels) pre"
      "selectorMatches (Selector cw) objectLabels"
    using that
    by (auto simp: getWeight_def getWeightFrom_passes selectorMatches_def split: option.splits)
  have none: "getWeight r objectLabels = DefaultWeight r"
    if "list_all (\<lambda>c. selectorPasses (Selector c) objectLabels) (CustomWeights r)"
    using getWeightFrom_passes[OF that, of "DefaultWeight r" "[]"] by (simp add: getWeight_def)
  have invalid: "getWeight r objectLabels = DefaultWeight r"
    if "CustomWeights r = pre @ cw # post"
      "list_all (\<lambda>c. selectorPasses (Selector c) objectLabels) pre"
      "selectorInvalid (Selector cw)"
    using that
    by (auto simp: getWeight_def getWeightFrom_passes selectorInvalid_def isNil_def
        split: option.splits)
  from tier first none invalid show ?thesis
    by (simp add: getWeight_foo)
qed

text \<open>
  The four cases of \<open>getWeight\<close> and the weighted record at inputs of the package's
  tests.
\<close>

theorem weight_of_first_match_witness:
  "getWeight (loadBalanced twoIPs [fooWeight]) fooLabels = 100 \<and>
   getWeight (loadBalanced twoIPs [fooWeight]) ieLabels = 120 \<and>
   getWeight (loadBalanced twoIPs [goldWeight, fooWeight]) fooLabels = 100 \<and>
   getWeight (loadBalanced twoIPs [goldWeight]) fooLabels = 120 \<and>
   getWeight (loadBalanced twoIPs [badOperatorWeight, fooWeight]) fooLabels = 120 \<and>
   (\<exists>endpoints.
      GenerateEndpoints recordedHash [''127.0.0.1'', ''127.0.0.2''] TestNamespacedName fooLabels
        ''test.example.com'' (loadBalanced twoIPs [fooWeight]) = Inr endpoints \<and>
      \<lparr>DNSName = ''ie.klb.test.example.com'',
         Targets = [''2q5hyv-a8xcra.klb.test.example.com''],
         RecordType = ''CNAME'',
         SetIdentifier = ''2q5hyv-a8xcra.klb.test.example.com'',
         RecordTTL = 60, ProviderSpecific = [(''weight'', ''100'')]\<rparr> \<in> set endpoints)"
proof -
  note T = weight_of_first_match
  have foo: "mapIndex fooLabels ''kuadrant.io/my-custom-weight-attr'' = Some ''FOO''"
    by (simp add: fooLabels_def mapIndex_def)
  have ie: "mapIndex ieLabels ''kuadrant.io/my-custom-weight-attr'' \<noteq> Some ''FOO''"
    by (simp add: ieLabels_def mapIndex_def LabelLBAttributeGeoCode_def)
  have gold: "selectorPasses (Selector goldWeight) fooLabels" by code_simp
  have bad: "selectorInvalid (Selector badOperatorWeight)" by code_simp
  have match: "selectorMatches (Selector fooWeight) fooLabels" by code_simp
  have w1: "getWeight (loadBalanced twoIPs [fooWeight]) fooLabels = 100"
    using T[where objectLabels = fooLabels and addresses = twoIPs] foo by blast
  have w2: "getWeight (loadBalanced twoIPs [fooWeight]) ieLabels = 120"
    using T[where objectLabels = ieLabels and addresses = twoIPs] ie by blast
  have w3: "getWeight (loadBalanced twoIPs [goldWeight, fooWeight]) fooLabels = 100"
    using T[where r = "loadBalanced twoIPs [goldWeight, fooWeight]" and pre = "[goldWeight]"
        and cw = fooWeight and post = "[]" and objectLabels = fooLabels] gold match
    by (simp add: loadBalanced_def fooWeight_def)
  have w4: "getWeight (loadBalanced twoIPs [goldWeight]) fooLabels = 120"
    using T[where r = "loadBalanced twoIPs [goldWeight]" and objectLabels = fooLabels] gold
    by (simp add: loadBalanced_def)
  have w5: "getWeight (loadBalanced twoIPs [badOperatorWeight, fooWeight]) fooLabels = 120"
    using T[where r = "loadBalanced twoIPs [badOperatorWeight, fooWeight]" and pre = "[]"
        and cw = badOperatorWeight and post = "[fooWeight]" and objectLabels = fooLabels] bad
    by (simp add: loadBalanced_def)
  have v: "Validate (loadBalanced twoIPs [fooWeight]) = None" by code_simp
  have s: "Strategy (loadBalanced twoIPs [fooWeight]) = LoadBalancedRoutingStrategy"
    by (simp add: loadBalanced_def)
  have ht: "hostTargets recordedHash [''127.0.0.1'', ''127.0.0.2''] TestNamespacedName
      (loadBalanced twoIPs [fooWeight]) ''test.example.com'' = [''2q5hyv-a8xcra.klb.test.example.com'']"
    by code_simp
  have gl: "geoLbName fooLabels ''test.example.com'' = ''ie.klb.test.example.com''"
    by code_simp
  have it: "Itoa 100 = ''100''" by code_simp
  have w6: "\<exists>endpoints.
      GenerateEndpoints recordedHash [''127.0.0.1'', ''127.0.0.2''] TestNamespacedName fooLabels
        ''test.example.com'' (loadBalanced twoIPs [fooWeight]) = Inr endpoints \<and>
      \<lparr>DNSName = ''ie.klb.test.example.com'',
         Targets = [''2q5hyv-a8xcra.klb.test.example.com''],
         RecordType = ''CNAME'',
         SetIdentifier = ''2q5hyv-a8xcra.klb.test.example.com'',
         RecordTTL = 60, ProviderSpecific = [(''weight'', ''100'')]\<rparr> \<in> set endpoints"
    using T[where r = "loadBalanced twoIPs [fooWeight]" and hostname = "''test.example.com''"
        and h = recordedHash and ord = "[''127.0.0.1'', ''127.0.0.2'']" and nn = TestNamespacedName
        and ls = "[LabelLBAttributeGeoCode \<mapsto> ''IE'', ''kuadrant.io/my-custom-weight-attr'' \<mapsto> ''FOO'']",
        THEN conjunct1] v s ht gl w1 it
    unfolding fooLabels_def[symmetric]
    by auto
  from w1 w2 w3 w4 w5 w6 show ?thesis by blast
qed

text \<open>
  The claim as stated fails when a selector that does not convert stands before the
  matching one: \<open>Validate\<close> accepts the routing, the second custom weight matches the
  labels and has weight 100, and the records carry the default weight 120.
\<close>

theorem weight_of_first_match_counterexample:
  "Validate (loadBalanced twoIPs [badOperatorWeight, fooWeight]) = None \<and>
   selectorInvalid (Selector badOperatorWeight) \<and>
   selectorMatches (Selector fooWeight) fooLabels \<and>
   Weight fooWeight = 100 \<and>
   getWeight (loadBalanced twoIPs [badOperatorWeight, fooWeight]) fooLabels = 120 \<and>
   getWeight (loadBalanced twoIPs [badOperatorWeight, fooWeight]) fooLabels \<noteq> Weight fooWeight \<and>
   GenerateEndpoints recordedHash [''127.0.0.1'', ''127.0.0.2''] TestNamespacedName fooLabels
     ''test.example.com'' (loadBalanced twoIPs [badOperatorWeight, fooWeight]) =
   Inr [\<lparr>DNSName = ''2q5hyv-a8xcra.klb.test.example.com'',
         Targets = [''127.0.0.1'', ''127.0.0.2''], RecordType = ''A'',
         SetIdentifier = [], RecordTTL = 60, ProviderSpecific = []\<rparr>,
      \<lparr>DNSName = ''ie.klb.test.example.com'',
         Targets = [''2q5hyv-a8xcra.klb.test.example.com''],
         RecordType = ''CNAME'',
         SetIdentifier = ''2q5hyv-a8xcra.klb.test.example.com'',
         RecordTTL = 60, ProviderSpecific = [(''weight'', ''120'')]\<rparr>,
      \<lparr>DNSName = ''klb.test.example.com'',
         Targets = [''ie.klb.test.example.com''], RecordType = ''CNAME'',
         SetIdentifier = ''IE'', RecordTTL = 300,
         ProviderSpecific = [(''geo-code'', ''IE'')]\<rparr>,
      \<lparr>DNSName = ''klb.test.example.com'',
         Targets = [''ie.klb.test.example.com''], RecordType = ''CNAME'',
         SetIdentifier = ''default'', RecordTTL = 300,
         ProviderSpecific = [(''geo-code'', ''*'')]\<rparr>,
      \<lparr>DNSName = ''test.example.com'', Targets = [''klb.test.example.com''],
         RecordType = ''CNAME'', SetIdentifier = [], RecordTTL = 300,
         ProviderSpecific = []\<rparr>]"
  by code_simp

section \<open>C10: a simple routing is never invalid\<close>

text \<open>
  C10: for every routing whose strategy is simple, \<open>Validate\<close> returns nil whatever the
  other fields hold, so \<open>GenerateEndpoints\<close> with a non-empty hostname returns no
  validation error but the sorted simple endpoints; it returns the empty list when the
  addresses map is nil or empty; and an address whose kind is not "IPAddress" is a
  hostname-typed target: it is among the targets of the CNAME record of the result and
  not among the IP targets.
\<close>

theorem simple_never_invalid:
  "(Strategy r = SimpleRoutingStrategy \<longrightarrow> Validate r = None) \<and>
   (Strategy r = SimpleRoutingStrategy \<and> hostname \<noteq> ''''
      \<longrightarrow> GenerateEndpoints h ord nn objectLabels hostname r =
            Inr (sortSlice (getSimpleEndpoints ord (Addresses r) hostname))) \<and>
   (Strategy r = SimpleRoutingStrategy \<and> hostname \<noteq> '''' \<and> mapKeys (Addresses r) = {}
      \<longrightarrow> GenerateEndpoints h ord nn objectLabels hostname r = Inr []) \<and>
   (Strategy r = SimpleRoutingStrategy \<and> hostname \<noteq> '''' \<and> rangeOrder ord (Addresses r) \<and>
    mapIndex (Addresses r) address = Some kind \<and> kind \<noteq> ''IPAddress''
      \<longrightarrow> address \<in> set (snd (targetsFromAddresses ord (Addresses r))) \<and>
          address \<notin> set (fst (targetsFromAddresses ord (Addresses r))) \<and>
          (\<exists>endpoints. GenerateEndpoints h ord nn objectLabels hostname r = Inr endpoints \<and>
             createEndpoint hostname (snd (targetsFromAddresses ord (Addresses r)))
               CNAMERecordType '''' DefaultTTL \<in> set endpoints))"
proof -
  have none: "getSimpleEndpoints ord (Addresses r) hostname = []" if "mapKeys (Addresses r) = {}"
    by (simp add: getSimpleEndpoints_eq targetsFromAddresses_eq mapKeys_empty_index[OF that])
  have host: "address \<in> set (snd (targetsFromAddresses ord (Addresses r))) \<and>
      address \<notin> set (fst (targetsFromAddresses ord (Addresses r))) \<and>
      createEndpoint hostname (snd (targetsFromAddresses ord (Addresses r)))
               CNAMERecordType '''' DefaultTTL \<in> set (getSimpleEndpoints ord (Addresses r) hostname)"
    if "rangeOrder ord (Addresses r)" "mapIndex (Addresses r) address = Some kind" "kind \<noteq> ''IPAddress''"
  proof -
    from that have "address \<in> set ord"
      by (auto simp: rangeOrder_def mapKeys_def mapIndex_def split: option.splits)
    with that show ?thesis
      by (auto simp: getSimpleEndpoints_eq targetsFromAddresses_eq filter_empty_conv)
  qed
  show ?thesis
    using none host by (auto simp: GenerateEndpoints_simple Validate_simple)
qed

theorem simple_never_invalid_witness:
  "Validate (simple None) = None \<and>
   GenerateEndpoints recordedHash [] TestNamespacedName None ''test.example.com'' (simple None) = Inr [] \<and>
   GenerateEndpoints recordedHash [] TestNamespacedName None ''test.example.com''
     (simple (Some Map.empty)) = Inr [] \<and>
   ''pat.the.cat'' \<in> set (snd (targetsFromAddresses [''pat.the.cat''] bogusKind)) \<and>
   GenerateEndpoints recordedHash [''pat.the.cat''] TestNamespacedName None ''test.example.com''
     (simple bogusKind) =
     Inr [\<lparr>DNSName = ''test.example.com'', Targets = [''pat.the.cat''], RecordType = ''CNAME'',
           SetIdentifier = '''', RecordTTL = 60, ProviderSpecific = []\<rparr>]"
proof -
  have a: "Validate (simple None) = None"
    using simple_never_invalid[of "simple None"] by (simp add: simple_def)
  have b: "GenerateEndpoints recordedHash [] TestNamespacedName None ''test.example.com'' (simple None) = Inr []"
    using simple_never_invalid[where r = "simple None" and hostname = "''test.example.com''"
        and h = recordedHash and ord = "[]" and nn = TestNamespacedName and objectLabels = None,
        THEN conjunct2, THEN conjunct2, THEN conjunct1]
    by (simp add: simple_def mapKeys_def)
  have c: "GenerateEndpoints recordedHash [] TestNamespacedName None ''test.example.com''
     (simple (Some Map.empty)) = Inr []"
    using simple_never_invalid[where r = "simple (Some Map.empty)" and hostname = "''test.example.com''"
        and h = recordedHash and ord = "[]" and nn = TestNamespacedName and objectLabels = None,
        THEN conjunct2, THEN conjunct2, THEN conjunct1]
    by (simp add: simple_def mapKeys_def)
  have d: "''pat.the.cat'' \<in> set (snd (targetsFromAddresses [''pat.the.cat''] bogusKind))"
    using simple_never_invalid[where r = "simple bogusKind" and hostname = "''test.example.com''"
        and ord = "[''pat.the.cat'']" and address = "''pat.the.cat''" and kind = "''Bogus''",
        THEN conjunct2, THEN conjunct2, THEN conjunct2]
    by (simp add: simple_def bogusKind_def rangeOrder_def mapKeys_def mapIndex_def)
  have e: "GenerateEndpoints recordedHash [''pat.the.cat''] TestNamespacedName None ''test.example.com''
     (simple bogusKind) =
     Inr [\<lparr>DNSName = ''test.example.com'', Targets = [''pat.the.cat''], RecordType = ''CNAME'',
           SetIdentifier = '''', RecordTTL = 60, ProviderSpecific = []\<rparr>]"
    by code_simp
  from a b c d e show ?thesis by blast
qed

end
